theory Spec2Isabelle
  imports Main
begin

section \<open>gethosts: a cached host list fetched from Foreman\<close>

text \<open>
  A shallow embedding of \<^verbatim>\<open>gethosts.go\<close>. Go strings and byte slices are
  \<^typ>\<open>string\<close> (lists of 8-bit characters), a nil-able pointer is an
  \<^typ>\<open>'a option\<close>, and a Go \<^verbatim>\<open>error\<close> result is an \<^typ>\<open>'e option\<close>
  (\<open>None\<close> is \<^verbatim>\<open>nil\<close>) or the left summand of a sum.

  A \<^verbatim>\<open>time.Time\<close> is an instant and a \<^verbatim>\<open>time.Duration\<close> a span, both
  integers counting nanoseconds. The integers are unbounded: \<^verbatim>\<open>Time.Add\<close> is exact
  in Go for every instant that is further from the two ends of the range of
  \<^verbatim>\<open>time.Time\<close> (292 billion years either side of the year 1) than the longest
  duration (292 years), and the ends themselves are not modelled.

  The functions of the standard library that decide what the program computes
  (\<^verbatim>\<open>strings\<close>, \<^verbatim>\<open>encoding/json\<close> with \<^verbatim>\<open>unicode/utf8\<close> and
  \<^verbatim>\<open>unicode/utf16\<close>) are embedded as well, as they behave in the current releases of
  Go; the operating system, the network and the clock are a parameter, the \<open>world\<close>.
\<close>

subsection \<open>The functions of package strings that the program calls\<close>

abbreviation nl :: char where
  "nl \<equiv> CHR 0x0A"

abbreviation at_sign :: char where
  "at_sign \<equiv> CHR 0x40"

text \<open>\<^verbatim>\<open>strings.HasPrefix(s, prefix)\<close>:
  \<^verbatim>\<open>len(s) >= len(prefix) && s[0:len(prefix)] == prefix\<close>.\<close>

definition HasPrefix :: "string \<Rightarrow> string \<Rightarrow> bool" where
  "HasPrefix s pre \<longleftrightarrow> length pre \<le> length s \<and> take (length pre) s = pre"

text \<open>\<^verbatim>\<open>strings.Index(s, sep)\<close> for a separator of one byte (the program calls
  it with \<^verbatim>\<open>"@"\<close>): the index of the first occurrence, or \<open>-1\<close>.\<close>

fun Index :: "string \<Rightarrow> char \<Rightarrow> int" where
  "Index [] sep = -1"
| "Index (c # cs) sep =
     (if c = sep then 0
      else (let i = Index cs sep in if i = -1 then -1 else i + 1))"

text \<open>\<^verbatim>\<open>strings.Split(s, sep)\<close> for a separator of one byte (the program calls
  it with a newline): the pieces between the separators, one more than there are
  separators, so the empty string splits into one empty piece.\<close>

fun Split :: "string \<Rightarrow> char \<Rightarrow> string list" where
  "Split [] sep = [[]]"
| "Split (c # cs) sep =
     (if c = sep then [] # Split cs sep
      else (case Split cs sep of
              [] \<Rightarrow> [[c]]
            | piece # pieces \<Rightarrow> (c # piece) # pieces))"

subsection \<open>Errors\<close>

text \<open>The values of Go's \<^verbatim>\<open>error\<close> that reach the program: failures of the
  operating system and of the HTTP client, which carry their message, and the two
  errors of package \<^verbatim>\<open>encoding/json\<close>. \<open>PhaseError\<close> is the decoder's panic
  \<^verbatim>\<open>phasePanicMsg\<close>, recovered into an error.\<close>

datatype error =
    OSError string
  | HTTPError string
  | SyntaxError string
  | UnmarshalTypeError string string
  | PhaseError

subsection \<open>The decoded payload\<close>

record Result =
  Name :: string

record Response =
  Results :: "Result list"

subsection \<open>Package unicode/utf8 and utf16\<close>

definition byte :: "char \<Rightarrow> int" where
  "byte c = of_char c"

definition RuneError :: int where
  "RuneError = 0xFFFD"

definition EncodeRune :: "int \<Rightarrow> string" where
  "EncodeRune r =
     (if r < 0 then [CHR 0xEF, CHR 0xBF, CHR 0xBD]
      else if r \<le> 0x7F then [char_of r]
      else if r \<le> 0x7FF then [char_of (0xC0 + r div 0x40), char_of (0x80 + r mod 0x40)]
      else if 0x10FFFF < r \<or> (0xD800 \<le> r \<and> r \<le> 0xDFFF) then [CHR 0xEF, CHR 0xBF, CHR 0xBD]
      else if r \<le> 0xFFFF then
        [char_of (0xE0 + r div 0x1000), char_of (0x80 + r div 0x40 mod 0x40),
         char_of (0x80 + r mod 0x40)]
      else
        [char_of (0xF0 + r div 0x40000), char_of (0x80 + r div 0x1000 mod 0x40),
         char_of (0x80 + r div 0x40 mod 0x40), char_of (0x80 + r mod 0x40)])"

text \<open>The table \<^verbatim>\<open>first\<close> with \<^verbatim>\<open>acceptRanges\<close>: for a leading byte, the
  length of its sequence and the range its second byte must lie in.\<close>

definition leading :: "int \<Rightarrow> (nat \<times> int \<times> int) option" where
  "leading b =
     (if 0xC2 \<le> b \<and> b \<le> 0xDF then Some (2, 0x80, 0xBF)
      else if b = 0xE0 then Some (3, 0xA0, 0xBF)
      else if b = 0xED then Some (3, 0x80, 0x9F)
      else if 0xE1 \<le> b \<and> b \<le> 0xEF then Some (3, 0x80, 0xBF)
      else if b = 0xF0 then Some (4, 0x90, 0xBF)
      else if 0xF1 \<le> b \<and> b \<le> 0xF3 then Some (4, 0x80, 0xBF)
      else if b = 0xF4 then Some (4, 0x80, 0x8F)
      else None)"

definition cont :: "int \<Rightarrow> bool" where
  "cont b \<longleftrightarrow> 0x80 \<le> b \<and> b \<le> 0xBF"

text \<open>\<^verbatim>\<open>utf8.DecodeRune(p)\<close>: the first rune of \<open>p\<close> and its width in bytes.\<close>

definition DecodeRune :: "string \<Rightarrow> int \<times> nat" where
  "DecodeRune p =
     (case map byte p of
        [] \<Rightarrow> (RuneError, 0)
      | p0 # ps \<Rightarrow>
          if p0 < 0x80 then (p0, 1)
          else (case leading p0 of
             None \<Rightarrow> (RuneError, 1)
           | Some (sz, lo, hi) \<Rightarrow>
               if length p < sz then (RuneError, 1)
               else (let b1 = ps ! 0 in
                 if b1 < lo \<or> hi < b1 then (RuneError, 1)
                 else if sz \<le> 2 then ((p0 mod 0x20) * 0x40 + b1 mod 0x40, 2)
                 else (let b2 = ps ! 1 in
                   if \<not> cont b2 then (RuneError, 1)
                   else if sz \<le> 3 then
                     ((p0 mod 0x10) * 0x1000 + (b1 mod 0x40) * 0x40 + b2 mod 0x40, 3)
                   else (let b3 = ps ! 2 in
                     if \<not> cont b3 then (RuneError, 1)
                     else ((p0 mod 8) * 0x40000 + (b1 mod 0x40) * 0x1000
                            + (b2 mod 0x40) * 0x40 + b3 mod 0x40, 4))))))"

definition IsSurrogate :: "int \<Rightarrow> bool" where
  "IsSurrogate r \<longleftrightarrow> 0xD800 \<le> r \<and> r < 0xE000"

text \<open>\<^verbatim>\<open>utf16.DecodeRune(r1, r2)\<close>.\<close>

definition DecodeRune16 :: "int \<Rightarrow> int \<Rightarrow> int" where
  "DecodeRune16 r1 r2 =
     (if 0xD800 \<le> r1 \<and> r1 < 0xDC00 \<and> 0xDC00 \<le> r2 \<and> r2 < 0xE000
      then (r1 - 0xD800) * 0x400 + (r2 - 0xDC00) + 0x10000
      else RuneError)"

subsection \<open>Package encoding/json: the scanner\<close>

datatype json =
    JNull
  | JBool bool
  | JNumber string
  | JString string
  | JArray "json list"
  | JObject "(string \<times> json) list"

definition hexval :: "char \<Rightarrow> int option" where
  "hexval c =
     (let b = byte c in
      if 0x30 \<le> b \<and> b \<le> 0x39 then Some (b - 0x30)
      else if 0x61 \<le> b \<and> b \<le> 0x66 then Some (b - 0x61 + 10)
      else if 0x41 \<le> b \<and> b \<le> 0x46 then Some (b - 0x41 + 10)
      else None)"

text \<open>\<^verbatim>\<open>getu4(s)\<close>: the rune of a \<^verbatim>\<open>\uXXXX\<close> escape at the start of \<open>s\<close>;
  \<open>None\<close> is its result \<open>-1\<close>.\<close>

definition getu4 :: "string \<Rightarrow> int option" where
  "getu4 s =
     (case s of
        b # u # h1 # h2 # h3 # h4 # rest \<Rightarrow>
          if b = CHR 0x5C \<and> u = CHR ''u'' then
            (case (hexval h1, hexval h2, hexval h3, hexval h4) of
               (Some d1, Some d2, Some d3, Some d4) \<Rightarrow>
                 Some (d1 * 0x1000 + d2 * 0x100 + d3 * 0x10 + d4)
             | _ \<Rightarrow> None)
          else None
      | _ \<Rightarrow> None)"

definition escaped :: "char \<Rightarrow> char option" where
  "escaped e =
     (if e = CHR 0x22 \<or> e = CHR 0x5C \<or> e = CHR ''/'' \<or> e = CHR 0x27 then Some e
      else if e = CHR ''b'' then Some (CHR 0x08)
      else if e = CHR ''f'' then Some (CHR 0x0C)
      else if e = CHR ''n'' then Some (CHR 0x0A)
      else if e = CHR ''r'' then Some (CHR 0x0D)
      else if e = CHR ''t'' then Some (CHR 0x09)
      else None)"

text \<open>\<^verbatim>\<open>unquote\<close>, on the bytes between the quotes of a string literal: escapes
  are replaced, a surrogate pair becomes one rune, and bytes that are not UTF-8 become
  the replacement rune U+FFFD. \<open>None\<close> is its result \<^verbatim>\<open>ok == false\<close>.\<close>

function unquote :: "string \<Rightarrow> string option" where
  "unquote [] = Some []"
| "unquote (c # s) =
     (if c = CHR 0x5C then
        (case s of
           [] \<Rightarrow> None
         | e # s' \<Rightarrow>
             if e = CHR ''u'' then
               (case getu4 (c # s) of
                  None \<Rightarrow> None
                | Some rr \<Rightarrow>
                    if IsSurrogate rr \<and>
                       DecodeRune16 rr (case getu4 (drop 5 s) of None \<Rightarrow> -1 | Some rr1 \<Rightarrow> rr1)
                         \<noteq> RuneError
                    then map_option
                      (\<lambda>t. EncodeRune
                         (DecodeRune16 rr (case getu4 (drop 5 s) of None \<Rightarrow> -1 | Some rr1 \<Rightarrow> rr1)) @ t)
                      (unquote (drop 11 s))
                    else map_option
                      (\<lambda>t. EncodeRune (if IsSurrogate rr then RuneError else rr) @ t)
                      (unquote (drop 5 s)))
             else (case escaped e of
                     None \<Rightarrow> None
                   | Some x \<Rightarrow> map_option (\<lambda>t. x # t) (unquote s')))
      else if c = CHR 0x22 \<or> byte c < 0x20 then None
      else if byte c < 0x80 then map_option (\<lambda>t. c # t) (unquote s)
      else map_option (\<lambda>t. EncodeRune (fst (DecodeRune (c # s))) @ t)
             (unquote (drop (snd (DecodeRune (c # s)) - 1) s)))"
  by pat_completeness auto
termination
  by (relation "measure length") auto

text \<open>The scanner of \<^verbatim>\<open>scanner.go\<close> is an automaton that reads one byte at a time:
  \<^verbatim>\<open>step\<close> is its state function and \<^verbatim>\<open>parseState\<close> its stack. Here the
  states and the stack entries also carry what has been read, so that the automaton
  accepts exactly the texts \<^verbatim>\<open>checkValid\<close> accepts and yields the value that the
  decoder then walks.\<close>

datatype frame =
    ArrayValue "json list"
  | ObjectKey "(string \<times> json) list"
  | ObjectColon "(string \<times> json) list" string
  | ObjectValue "(string \<times> json) list" string
  | ObjectNext "(string \<times> json) list"

datatype step =
    BeginValue
  | BeginValueOrEmpty
  | BeginStringOrEmpty
  | BeginString
  | EndValue
  | EndTop json
  | InString string
  | InStringEsc string
  | InStringEscU nat string
  | NumNeg string
  | Num1 string
  | Num0 string
  | NumDot string
  | NumDot0 string
  | NumE string
  | NumESign string
  | NumE0 string
  | InLiteral string json

type_synonym scanner = "step \<times> frame list"

definition isSpace :: "char \<Rightarrow> bool" where
  "isSpace c \<longleftrightarrow> c = CHR '' '' \<or> c = CHR 0x09 \<or> c = CHR 0x0D \<or> c = CHR 0x0A"

definition isDigit :: "char \<Rightarrow> bool" where
  "isDigit c \<longleftrightarrow> 0x30 \<le> byte c \<and> byte c \<le> 0x39"

text \<open>A value is complete: it becomes the next element, key or member value of the
  enclosing array or object, or the result when nothing encloses it.\<close>

fun endOfValue :: "json \<Rightarrow> frame list \<Rightarrow> error + scanner" where
  "endOfValue v [] = Inr (EndTop v, [])"
| "endOfValue v (ArrayValue vs # st) = Inr (EndValue, ArrayValue (vs @ [v]) # st)"
| "endOfValue (JString k) (ObjectKey ms # st) = Inr (EndValue, ObjectColon ms k # st)"
| "endOfValue v (ObjectValue ms k # st) = Inr (EndValue, ObjectNext (ms @ [(k, v)]) # st)"
| "endOfValue v st = Inl PhaseError"

text \<open>\<^verbatim>\<open>stateEndValue\<close> and \<^verbatim>\<open>stateEndTop\<close>.\<close>

fun stateEndValue :: "scanner \<Rightarrow> char \<Rightarrow> error + scanner" where
  "stateEndValue (EndTop v, st) c =
     (if isSpace c then Inr (EndTop v, st)
      else Inl (SyntaxError ''after top-level value''))"
| "stateEndValue (EndValue, ObjectColon ms k # st) c =
     (if isSpace c then Inr (EndValue, ObjectColon ms k # st)
      else if c = CHR '':'' then Inr (BeginValue, ObjectValue ms k # st)
      else Inl (SyntaxError ''after object key''))"
| "stateEndValue (EndValue, ObjectNext ms # st) c =
     (if isSpace c then Inr (EndValue, ObjectNext ms # st)
      else if c = CHR '','' then Inr (BeginString, ObjectKey ms # st)
      else if c = CHR ''}'' then endOfValue (JObject ms) st
      else Inl (SyntaxError ''after object key:value pair''))"
| "stateEndValue (EndValue, ArrayValue vs # st) c =
     (if isSpace c then Inr (EndValue, ArrayValue vs # st)
      else if c = CHR '','' then Inr (BeginValue, ArrayValue vs # st)
      else if c = CHR '']'' then endOfValue (JArray vs) st
      else Inl (SyntaxError ''after array element''))"
| "stateEndValue sc c = Inl PhaseError"

text \<open>\<^verbatim>\<open>pushParseState\<close> refuses a nesting of arrays and objects deeper than
  \<^verbatim>\<open>maxNestingDepth\<close>.\<close>

definition maxNestingDepth :: nat where
  "maxNestingDepth = 10000"

definition pushParseState :: "frame \<Rightarrow> frame list \<Rightarrow> step \<Rightarrow> error + scanner" where
  "pushParseState f st success =
     (if length (f # st) \<le> maxNestingDepth then Inr (success, f # st)
      else Inl (SyntaxError ''exceeded max depth''))"

definition stateBeginValue :: "step \<Rightarrow> frame list \<Rightarrow> char \<Rightarrow> error + scanner" where
  "stateBeginValue cur st c =
     (if isSpace c then Inr (cur, st)
      else if c = CHR ''{'' then pushParseState (ObjectKey []) st BeginStringOrEmpty
      else if c = CHR ''['' then pushParseState (ArrayValue []) st BeginValueOrEmpty
      else if c = CHR 0x22 then Inr (InString [], st)
      else if c = CHR ''-'' then Inr (NumNeg [c], st)
      else if c = CHR ''0'' then Inr (Num0 [c], st)
      else if c = CHR ''t'' then Inr (InLiteral ''rue'' (JBool True), st)
      else if c = CHR ''f'' then Inr (InLiteral ''alse'' (JBool False), st)
      else if c = CHR ''n'' then Inr (InLiteral ''ull'' JNull, st)
      else if isDigit c then Inr (Num1 [c], st)
      else Inl (SyntaxError ''looking for beginning of value''))"

text \<open>The end of a number: the byte after it is read by \<^verbatim>\<open>stateEndValue\<close>.\<close>

definition endOfNumber :: "string \<Rightarrow> frame list \<Rightarrow> char \<Rightarrow> error + scanner" where
  "endOfNumber lit st c =
     (case endOfValue (JNumber lit) st of
        Inl e \<Rightarrow> Inl e
      | Inr sc \<Rightarrow> stateEndValue sc c)"

definition state0 :: "string \<Rightarrow> frame list \<Rightarrow> char \<Rightarrow> error + scanner" where
  "state0 lit st c =
     (if c = CHR ''.'' then Inr (NumDot (lit @ [c]), st)
      else if c = CHR ''e'' \<or> c = CHR ''E'' then Inr (NumE (lit @ [c]), st)
      else endOfNumber lit st c)"

definition stateESign :: "string \<Rightarrow> frame list \<Rightarrow> char \<Rightarrow> error + scanner" where
  "stateESign lit st c =
     (if isDigit c then Inr (NumE0 (lit @ [c]), st)
      else Inl (SyntaxError ''in exponent of numeric literal''))"

fun scan_step :: "scanner \<Rightarrow> char \<Rightarrow> error + scanner" where
  "scan_step (BeginValue, st) c = stateBeginValue BeginValue st c"
| "scan_step (BeginValueOrEmpty, st) c =
     (if isSpace c then Inr (BeginValueOrEmpty, st)
      else if c = CHR '']'' then stateEndValue (EndValue, st) c
      else stateBeginValue BeginValueOrEmpty st c)"
| "scan_step (BeginStringOrEmpty, st) c =
     (if isSpace c then Inr (BeginStringOrEmpty, st)
      else if c = CHR ''}'' then
        (case st of
           ObjectKey ms # st' \<Rightarrow> stateEndValue (EndValue, ObjectNext ms # st') c
         | _ \<Rightarrow> Inl PhaseError)
      else if c = CHR 0x22 then Inr (InString [], st)
      else Inl (SyntaxError ''looking for beginning of object key string''))"
| "scan_step (BeginString, st) c =
     (if isSpace c then Inr (BeginString, st)
      else if c = CHR 0x22 then Inr (InString [], st)
      else Inl (SyntaxError ''looking for beginning of object key string''))"
| "scan_step (EndValue, st) c = stateEndValue (EndValue, st) c"
| "scan_step (EndTop v, st) c = stateEndValue (EndTop v, st) c"
| "scan_step (InString lit, st) c =
     (if c = CHR 0x22 then
        (case unquote lit of
           None \<Rightarrow> Inl PhaseError
         | Some s \<Rightarrow> endOfValue (JString s) st)
      else if c = CHR 0x5C then Inr (InStringEsc (lit @ [c]), st)
      else if byte c < 0x20 then Inl (SyntaxError ''in string literal'')
      else Inr (InString (lit @ [c]), st))"
| "scan_step (InStringEsc lit, st) c =
     (if c \<in> set ''bfnrt/'' \<or> c = CHR 0x5C \<or> c = CHR 0x22 then Inr (InString (lit @ [c]), st)
      else if c = CHR ''u'' then Inr (InStringEscU 0 (lit @ [c]), st)
      else Inl (SyntaxError ''in string escape code''))"
| "scan_step (InStringEscU n lit, st) c =
     (if hexval c = None then Inl (SyntaxError ''in hexadecimal character escape'')
      else if n < 3 then Inr (InStringEscU (n + 1) (lit @ [c]), st)
      else Inr (InString (lit @ [c]), st))"
| "scan_step (NumNeg lit, st) c =
     (if c = CHR ''0'' then Inr (Num0 (lit @ [c]), st)
      else if isDigit c then Inr (Num1 (lit @ [c]), st)
      else Inl (SyntaxError ''in numeric literal''))"
| "scan_step (Num1 lit, st) c =
     (if isDigit c then Inr (Num1 (lit @ [c]), st) else state0 lit st c)"
| "scan_step (Num0 lit, st) c = state0 lit st c"
| "scan_step (NumDot lit, st) c =
     (if isDigit c then Inr (NumDot0 (lit @ [c]), st)
      else Inl (SyntaxError ''after decimal point in numeric literal''))"
| "scan_step (NumDot0 lit, st) c =
     (if isDigit c then Inr (NumDot0 (lit @ [c]), st)
      else if c = CHR ''e'' \<or> c = CHR ''E'' then Inr (NumE (lit @ [c]), st)
      else endOfNumber lit st c)"
| "scan_step (NumE lit, st) c =
     (if c = CHR ''+'' \<or> c = CHR ''-'' then Inr (NumESign (lit @ [c]), st)
      else stateESign lit st c)"
| "scan_step (NumESign lit, st) c = stateESign lit st c"
| "scan_step (NumE0 lit, st) c =
     (if isDigit c then Inr (NumE0 (lit @ [c]), st) else endOfNumber lit st c)"
| "scan_step (InLiteral [] v, st) c = Inl PhaseError"
| "scan_step (InLiteral (x # xs) v, st) c =
     (if c \<noteq> x then Inl (SyntaxError ''in literal'')
      else if xs = [] then endOfValue v st
      else Inr (InLiteral xs v, st))"

text \<open>\<^verbatim>\<open>checkValid\<close>: every byte in turn, stopping at the first error, then
  \<^verbatim>\<open>eof\<close>, which lets a number at the very end finish by one more step on a space.\<close>

fun scan_bytes :: "scanner \<Rightarrow> string \<Rightarrow> error + scanner" where
  "scan_bytes sc [] = Inr sc"
| "scan_bytes sc (c # cs) =
     (case scan_step sc c of
        Inl e \<Rightarrow> Inl e
      | Inr sc' \<Rightarrow> scan_bytes sc' cs)"

definition eof :: "scanner \<Rightarrow> error + json" where
  "eof sc =
     (case sc of
        (EndTop v, st) \<Rightarrow> Inr v
      | _ \<Rightarrow>
        (case scan_step sc (CHR '' '') of
           Inl e \<Rightarrow> Inl e
         | Inr (EndTop v, st) \<Rightarrow> Inr v
         | Inr _ \<Rightarrow> Inl (SyntaxError ''unexpected end of JSON input'')))"

definition checkValid :: "string \<Rightarrow> error + json" where
  "checkValid data =
     (case scan_bytes (BeginValue, []) data of
        Inl e \<Rightarrow> Inl e
      | Inr sc \<Rightarrow> eof sc)"

subsection \<open>Package encoding/json: decoding into a Response\<close>

text \<open>A member of a JSON object is stored into the field whose name it has, exactly
  or under Unicode simple case folding (\<^verbatim>\<open>strings.EqualFold\<close>). The field names here
  are ASCII letters; the two runes outside ASCII that fold to an ASCII letter are
  U+017F (to \<open>s\<close>) and U+212A (to \<open>k\<close>).\<close>

definition lower :: "char \<Rightarrow> char" where
  "lower c = (if 0x41 \<le> byte c \<and> byte c \<le> 0x5A then char_of (byte c + 0x20) else c)"

fun EqualFold :: "string \<Rightarrow> string \<Rightarrow> bool" where
  "EqualFold [] key \<longleftrightarrow> key = []"
| "EqualFold (n # ns) key \<longleftrightarrow>
     (case key of
        [] \<Rightarrow> False
      | c # cs \<Rightarrow>
          if byte c < 0x80 then lower c = lower n \<and> EqualFold ns cs
          else if lower n = CHR ''s'' \<and> take 2 key = [CHR 0xC5, CHR 0xBF]
            then EqualFold ns (drop 2 key)
          else if lower n = CHR ''k'' \<and> take 3 key = [CHR 0xE2, CHR 0x84, CHR 0xAA]
            then EqualFold ns (drop 3 key)
          else False)"

definition matchField :: "string \<Rightarrow> string \<Rightarrow> bool" where
  "matchField name key \<longleftrightarrow> key = name \<or> EqualFold name key"

text \<open>\<^verbatim>\<open>saveError\<close> keeps the first error; decoding goes on after it.\<close>

definition saveError :: "error \<Rightarrow> error option \<Rightarrow> error option" where
  "saveError e saved = (case saved of None \<Rightarrow> Some e | Some e' \<Rightarrow> Some e')"

text \<open>The word by which \<^verbatim>\<open>UnmarshalTypeError.Value\<close> names the kind of a JSON
  value.\<close>

fun kindOf :: "json \<Rightarrow> string" where
  "kindOf JNull = ''null''"
| "kindOf (JBool b) = ''bool''"
| "kindOf (JNumber n) = ''number''"
| "kindOf (JString s) = ''string''"
| "kindOf (JArray vs) = ''array''"
| "kindOf (JObject ms) = ''object''"

text \<open>A value into the field \<^verbatim>\<open>Name string\<close>: a string is stored, \<^verbatim>\<open>null\<close>
  leaves the field as it is, anything else is a type error.\<close>

fun decodeName :: "json \<Rightarrow> string \<times> error option \<Rightarrow> string \<times> error option" where
  "decodeName (JString s) (name, saved) = (s, saved)"
| "decodeName JNull (name, saved) = (name, saved)"
| "decodeName v (name, saved) = (name, saveError (UnmarshalTypeError (kindOf v) ''string'') saved)"

text \<open>The members of an object into a \<^verbatim>\<open>Result\<close>, in the order of the text; a
  name that occurs again is stored again.\<close>

fun decodeResultMembers ::
  "(string \<times> json) list \<Rightarrow> Result \<times> error option \<Rightarrow> Result \<times> error option" where
  "decodeResultMembers [] (r, saved) = (r, saved)"
| "decodeResultMembers ((key, v) # ms) (r, saved) =
     (if matchField ''Name'' key then
        (case decodeName v (Name r, saved) of
           (name, saved') \<Rightarrow> decodeResultMembers ms (r\<lparr>Name := name\<rparr>, saved'))
      else decodeResultMembers ms (r, saved))"

fun decodeResult :: "json \<Rightarrow> Result \<times> error option \<Rightarrow> Result \<times> error option" where
  "decodeResult (JObject ms) (r, saved) = decodeResultMembers ms (r, saved)"
| "decodeResult JNull (r, saved) = (r, saved)"
| "decodeResult v (r, saved) = (r, saveError (UnmarshalTypeError (kindOf v) ''main.Result'') saved)"

text \<open>A slice is its backing array and its length. The elements of a JSON array are
  decoded into the elements the backing array already has, in place, and into new zero
  elements past its end.\<close>

type_synonym slice = "Result list \<times> nat"

fun decodeElements ::
  "json list \<Rightarrow> nat \<Rightarrow> Result list \<times> error option \<Rightarrow> Result list \<times> error option" where
  "decodeElements [] i (backing, saved) = (backing, saved)"
| "decodeElements (v # vs) i (backing, saved) =
     (if i < length backing then
        (case decodeResult v (backing ! i, saved) of
           (r, saved') \<Rightarrow> decodeElements vs (i + 1) (backing[i := r], saved'))
      else
        (case decodeResult v (\<lparr>Name = []\<rparr>, saved) of
           (r, saved') \<Rightarrow> decodeElements vs (i + 1) (backing @ [r], saved')))"

text \<open>A value into the field \<^verbatim>\<open>Results []Result\<close>: \<^verbatim>\<open>null\<close> makes it nil, an
  empty array a new empty slice, an array sets the length to the number of its elements,
  anything else is a type error.\<close>

fun decodeResults :: "json \<Rightarrow> slice \<times> error option \<Rightarrow> slice \<times> error option" where
  "decodeResults JNull (sl, saved) = (([], 0), saved)"
| "decodeResults (JArray vs) ((backing, n), saved) =
     (if vs = [] then (([], 0), saved)
      else (case decodeElements vs 0 (backing, saved) of
              (backing', saved') \<Rightarrow> ((backing', length vs), saved')))"
| "decodeResults v (sl, saved) = (sl, saveError (UnmarshalTypeError (kindOf v) ''[]main.Result'') saved)"

fun decodeResponseMembers ::
  "(string \<times> json) list \<Rightarrow> slice \<times> error option \<Rightarrow> slice \<times> error option" where
  "decodeResponseMembers [] (sl, saved) = (sl, saved)"
| "decodeResponseMembers ((key, v) # ms) (sl, saved) =
     (if matchField ''Results'' key
      then decodeResponseMembers ms (decodeResults v (sl, saved))
      else decodeResponseMembers ms (sl, saved))"

fun decodeResponse :: "json \<Rightarrow> slice \<times> error option \<Rightarrow> slice \<times> error option" where
  "decodeResponse (JObject ms) (sl, saved) = decodeResponseMembers ms (sl, saved)"
| "decodeResponse JNull (sl, saved) = (sl, saved)"
| "decodeResponse v (sl, saved) = (sl, saveError (UnmarshalTypeError (kindOf v) ''main.Response'') saved)"

text \<open>\<^verbatim>\<open>json.Unmarshal(data, &hosts)\<close> for a zero \<^verbatim>\<open>hosts\<close>: a text that is not
  JSON leaves it untouched; otherwise the text is decoded as far as its types allow, and
  the error is the first type error met.\<close>

definition Unmarshal :: "string \<Rightarrow> Response \<times> error option" where
  "Unmarshal data =
     (case checkValid data of
        Inl e \<Rightarrow> (\<lparr>Results = []\<rparr>, Some e)
      | Inr v \<Rightarrow>
          (case decodeResponse v (([], 0), None) of
             ((backing, n), saved) \<Rightarrow> (\<lparr>Results = take n backing\<rparr>, saved)))"

subsection \<open>Formatting the host list\<close>

text \<open>Lines 141 to 145 of \<^verbatim>\<open>downloadParseHosts\<close>: the loop that writes every
  host's name and a newline into a buffer; the text is the buffer's final content.\<close>

fun writeHosts :: "Result list \<Rightarrow> string \<Rightarrow> string" where
  "writeHosts [] buffer = buffer"
| "writeHosts (host # hosts) buffer = writeHosts hosts (buffer @ (Name host @ [nl]))"

definition formatHosts :: "Response \<Rightarrow> string" where
  "formatHosts hosts = writeHosts (Results hosts) []"

text \<open>The format as the specification words it: the names joined in order, one per
  line, and a newline after the last one; nothing for no names.\<close>

fun joinNames :: "string list \<Rightarrow> string" where
  "joinNames [] = []"
| "joinNames [n] = n"
| "joinNames (n # m # ns) = n @ [nl] @ joinNames (m # ns)"

definition specFormat :: "string list \<Rightarrow> string" where
  "specFormat names = (if names = [] then [] else joinNames names @ [nl])"

subsection \<open>The world outside the program\<close>

text \<open>What the program asks of its surroundings is answered by a \<open>world\<close>: the
  current user, the clock, the file system and the HTTP client. A time is an instant in
  nanoseconds; \<^verbatim>\<open>os.Stat\<close> answers with the modification time of the file, the one
  field of \<^verbatim>\<open>FileInfo\<close> the program reads. \<^verbatim>\<open>client.Do\<close> answers with an
  error or with what \<^verbatim>\<open>ioutil.ReadAll\<close> then gets from the body of the response.
  \<^verbatim>\<open>filepath.Join\<close> depends on the operating system and is part of the world
  too.\<close>

record world =
  user_Current :: "error option"
  time_Now :: int
  filepath_Join :: "string \<Rightarrow> string \<Rightarrow> string"
  os_Stat :: "string \<Rightarrow> error + int"
  ioutil_ReadFile :: "string \<Rightarrow> error + string"
  http_NewRequest :: "string \<Rightarrow> error option"
  client_Do :: "string \<Rightarrow> string \<Rightarrow> string \<Rightarrow> error + (error + string)"
  os_MkdirAll :: "string \<Rightarrow> error option"
  ioutil_WriteFile :: "string \<Rightarrow> string \<Rightarrow> error option"

text \<open>What the program does to its surroundings, in order: the calls that reach the
  file system or the network, with their arguments, and the lines it logs (a line is
  recorded by the format string of its statement).\<close>

datatype event =
    Log string
  | Stat string
  | ReadFile string
  | Do string string string
  | MkdirAll string
  | WriteFile string string

text \<open>\<^verbatim>\<open>Time.Add\<close> and \<^verbatim>\<open>Time.After\<close>.\<close>

definition Add :: "int \<Rightarrow> int \<Rightarrow> int" where
  "Add t d = t + d"

definition After :: "int \<Rightarrow> int \<Rightarrow> bool" where
  "After t u \<longleftrightarrow> u < t"

subsection \<open>The program\<close>

record HostGetter =
  DownloadLocation :: string
  CacheLocation :: string
  User :: string
  Password :: string
  CacheFileName :: string
  HostPattern :: "string option"
  HostPrefix :: string
  CacheDuration :: int

definition downloadHosts :: "world \<Rightarrow> HostGetter \<Rightarrow> (error + string) \<times> event list" where
  "downloadHosts w self =
     (case http_NewRequest w (DownloadLocation self) of
        Some err \<Rightarrow> (Inl err, [Log ''could not create new http request for %s''])
      | None \<Rightarrow>
          (case client_Do w (DownloadLocation self) (User self) (Password self) of
             Inl err \<Rightarrow>
               (Inl err,
                [Do (DownloadLocation self) (User self) (Password self),
                 Log ''could not open http connection to download config from %s''])
           | Inr (Inl err) \<Rightarrow>
               (Inl err,
                [Do (DownloadLocation self) (User self) (Password self),
                 Log ''could not download config from %s''])
           | Inr (Inr data) \<Rightarrow>
               (Inr data, [Do (DownloadLocation self) (User self) (Password self)])))"

definition parse :: "HostGetter \<Rightarrow> string \<Rightarrow> (Response \<times> error option) \<times> event list" where
  "parse self data =
     (case Unmarshal data of
        (hosts, Some err) \<Rightarrow> ((hosts, Some err), [Log ''error:''])
      | (hosts, None) \<Rightarrow> ((hosts, None), []))"

definition downloadParseHosts :: "world \<Rightarrow> HostGetter \<Rightarrow> (string \<times> error option) \<times> event list" where
  "downloadParseHosts w self =
     (case downloadHosts w self of
        (Inl err, ev) \<Rightarrow> (([], Some err), ev @ [Log ''failed to download''])
      | (Inr data, ev) \<Rightarrow>
          (case parse self data of
             ((hosts, Some err), ev') \<Rightarrow> (([], Some err), ev @ ev' @ [Log ''could not parse''])
           | ((hosts, None), ev') \<Rightarrow> ((formatHosts hosts, None), ev @ ev')))"

text \<open>Lines 106 to 124 of \<^verbatim>\<open>getHosts\<close>: the download, and the attempt to save
  its text in the cache.\<close>

definition refresh :: "world \<Rightarrow> HostGetter \<Rightarrow> string \<Rightarrow> (string \<times> error option) \<times> event list" where
  "refresh w self cacheLoc =
     (case downloadParseHosts w self of
        ((rt, Some err), ev) \<Rightarrow> ((rt, Some err), ev @ [Log ''could not get hosts''])
      | ((rt, None), ev) \<Rightarrow>
          (case os_MkdirAll w (CacheLocation self) of
             Some errd \<Rightarrow>
               ((rt, None),
                ev @ [Log ''downloaded and parsed - trying to save to cache'',
                      MkdirAll (CacheLocation self),
                      Log ''could not create cache dir %s (%v)''])
           | None \<Rightarrow>
               (case ioutil_WriteFile w cacheLoc rt of
                  Some errf \<Rightarrow>
                    ((rt, None),
                     ev @ [Log ''downloaded and parsed - trying to save to cache'',
                           MkdirAll (CacheLocation self),
                           WriteFile cacheLoc rt,
                           Log ''downloaded and parsed ok, could not save to cache %v''])
                | None \<Rightarrow>
                    ((rt, None),
                     ev @ [Log ''downloaded and parsed - trying to save to cache'',
                           MkdirAll (CacheLocation self),
                           WriteFile cacheLoc rt,
                           Log ''saved hosts in cache'']))))"

definition after :: "event list \<Rightarrow> 'a \<times> event list \<Rightarrow> 'a \<times> event list" where
  "after ev r = (fst r, ev @ snd r)"

definition cacheLoc :: "world \<Rightarrow> HostGetter \<Rightarrow> string" where
  "cacheLoc w self = filepath_Join w (CacheLocation self) (CacheFileName self)"

definition getHosts :: "world \<Rightarrow> HostGetter \<Rightarrow> (string \<times> error option) \<times> event list" where
  "getHosts w self =
     (case os_Stat w (cacheLoc w self) of
        Inl err \<Rightarrow>
          after [Stat (cacheLoc w self), Log ''no file in cache, downloading %s (%v)'']
            (refresh w self (cacheLoc w self))
      | Inr modTime \<Rightarrow>
          if \<not> After (time_Now w) (Add modTime (CacheDuration self)) then
            (case ioutil_ReadFile w (cacheLoc w self) of
               Inl err \<Rightarrow>
                 after [Stat (cacheLoc w self), Log ''found file in cache'',
                        ReadFile (cacheLoc w self),
                        Log ''corrupt file in cache, downloading %s (%v)'']
                   (refresh w self (cacheLoc w self))
             | Inr data \<Rightarrow>
                 ((data, None),
                  [Stat (cacheLoc w self), Log ''found file in cache'',
                   ReadFile (cacheLoc w self)]))
          else after [Stat (cacheLoc w self)] (refresh w self (cacheLoc w self)))"

text \<open>\<^verbatim>\<open>main\<close>, from the values \<^verbatim>\<open>flag.Parse\<close> has left in the six flags and
  in \<^verbatim>\<open>flag.Args()\<close>. What it produces is the text on standard output, the exit
  status (\<^verbatim>\<open>log.Fatal\<close> exits with 1) and the events.\<close>

record flags =
  url :: string
  cachedir :: string
  cachefile :: string
  user :: string
  password :: string
  cacheduration :: int

record outcome =
  stdout :: string
  status :: int
  events :: "event list"

text \<open>Lines 167 to 173: the getter, its pattern nil and its prefix empty.\<close>

definition newGetter :: "flags \<Rightarrow> HostGetter" where
  "newGetter f =
     \<lparr>DownloadLocation = url f, CacheLocation = cachedir f, User = user f,
      Password = password f, CacheFileName = cachefile f, HostPattern = None,
      HostPrefix = [], CacheDuration = cacheduration f\<rparr>"

text \<open>Lines 177 to 186: the first argument, cut at its first \<^verbatim>\<open>@\<close>.\<close>

definition patternArg :: "HostGetter \<Rightarrow> string list \<Rightarrow> HostGetter" where
  "patternArg getter args =
     (case args of
        [] \<Rightarrow> getter
      | patt # _ \<Rightarrow>
          (let i = Index patt at_sign in
           if i \<noteq> -1
           then getter\<lparr>HostPrefix := take (nat (i + 1)) patt,
                       HostPattern := Some (drop (nat (i + 1)) patt)\<rparr>
           else getter\<lparr>HostPattern := Some patt\<rparr>))"

text \<open>Lines 196 to 200: the loop over the lines; \<^verbatim>\<open>Fprintln\<close> ends what it
  prints with a newline.\<close>

fun printLines :: "string \<Rightarrow> string \<Rightarrow> string list \<Rightarrow> string" where
  "printLines prefix patt [] = []"
| "printLines prefix patt (line # hostArr) =
     (if HasPrefix line patt then (prefix @ line) @ [nl] else [])
       @ printLines prefix patt hostArr"

text \<open>Lines 193 to 204.\<close>

definition printHosts :: "HostGetter \<Rightarrow> string \<Rightarrow> string" where
  "printHosts getter hosts =
     (case HostPattern getter of
        Some patt \<Rightarrow> printLines (HostPrefix getter) patt (Split hosts nl)
      | None \<Rightarrow> hosts @ [nl])"

definition main :: "world \<Rightarrow> flags \<Rightarrow> string list \<Rightarrow> outcome" where
  "main w f args =
     (case user_Current w of
        Some err \<Rightarrow> \<lparr>stdout = [], status = 1, events = [Log ''%v'']\<rparr>
      | None \<Rightarrow>
          (let getter = patternArg (newGetter f) args;
               ev0 = (if args = [] then []
                      else [Log ''requesting pattern %s, for prefix %s''])
           in case getHosts w getter of
                ((hosts, Some err), ev) \<Rightarrow>
                  \<lparr>stdout = [], status = 1,
                   events = ev0 @ ev @ [Log ''failed to download hosts'']\<rparr>
              | ((hosts, None), ev) \<Rightarrow>
                  \<lparr>stdout = printHosts getter hosts, status = 0, events = ev0 @ ev\<rparr>))"

subsection \<open>Example worlds\<close>

text \<open>Concrete surroundings on which the theorems below are exercised: \<open>offline\<close> has
  no cache and no network, \<open>cachedAt\<close> has a cache file with a given modification time
  and content (or a read error), and \<open>serving\<close> lets the server answer with a given
  body. Paths are joined as on Unix, the duration is the default of one hour.\<close>

definition offline :: world where
  "offline =
     \<lparr>user_Current = None, time_Now = 0,
      filepath_Join = (\<lambda>dir name. dir @ ''/'' @ name),
      os_Stat = (\<lambda>p. Inl (OSError ''no such file or directory'')),
      ioutil_ReadFile = (\<lambda>p. Inl (OSError ''no such file or directory'')),
      http_NewRequest = (\<lambda>u. None),
      client_Do = (\<lambda>u usr pw. Inl (HTTPError ''no such host'')),
      os_MkdirAll = (\<lambda>p. None),
      ioutil_WriteFile = (\<lambda>p d. None)\<rparr>"

definition exampleFlags :: flags where
  "exampleFlags =
     \<lparr>url = ''https://foreman/hosts'', cachedir = ''/home/u/.gethosts'',
      cachefile = ''hostslist.txt'', user = ''admin'', password = ''secret'',
      cacheduration = 3600000000000\<rparr>"

definition cachePath :: string where
  "cachePath = ''/home/u/.gethosts/hostslist.txt''"

definition cachedAt :: "int \<Rightarrow> int \<Rightarrow> error + string \<Rightarrow> world" where
  "cachedAt T now content =
     offline\<lparr>time_Now := now,
             os_Stat := (\<lambda>p. if p = cachePath then Inr T
                             else Inl (OSError ''no such file or directory'')),
             ioutil_ReadFile := (\<lambda>p. if p = cachePath then content
                             else Inl (OSError ''no such file or directory''))\<rparr>"

definition serving :: "string \<Rightarrow> world \<Rightarrow> world" where
  "serving data w = w\<lparr>client_Do := (\<lambda>u usr pw. Inr (Inr data))\<rparr>"

definition threeHosts :: string where
  "threeHosts = ''{\"Results\":[{\"Name\":\"alpha\"},{\"Name\":\"beta\"},{\"Name\":\"alphabet\"}]}''"

definition mismatch :: string where
  "mismatch = ''{\"Results\":[{\"Name\":1}]}''"

section \<open>Properties\<close>

subsection \<open>Evaluation\<close>

text \<open>The equations that the simplifier unfolds to run the JSON library and the
  download on a concrete text.\<close>

lemmas json_eval =
  checkValid_def eof_def stateBeginValue_def pushParseState_def maxNestingDepth_def isSpace_def isDigit_def
  byte_def endOfNumber_def state0_def stateESign_def Unmarshal_def matchField_def lower_def
  saveError_def char_of_def escaped_def

lemmas run_eval =
  downloadParseHosts_def downloadHosts_def parse_def serving_def offline_def formatHosts_def

lemma cachedAt_fields [simp]:
  "user_Current (cachedAt T now content) = None"
  "time_Now (cachedAt T now content) = now"
  "os_Stat (cachedAt T now content) cachePath = Inr T"
  "ioutil_ReadFile (cachedAt T now content) cachePath = content"
  by (simp_all add: cachedAt_def offline_def)

lemma patternArg_CacheDuration [simp]:
  "CacheDuration (patternArg getter args) = CacheDuration getter"
  by (simp add: patternArg_def Let_def split: list.splits)

lemma newGetter_pattern [simp]:
  "HostPattern (newGetter f) = None"
  "HostPrefix (newGetter f) = []"
  by (simp_all add: newGetter_def)

lemma example_CacheDuration [simp]:
  "CacheDuration (newGetter exampleFlags) = 3600000000000"
  by (simp add: newGetter_def exampleFlags_def)

lemma cacheLoc_cachedAt [simp]:
  "cacheLoc (cachedAt T now content) (patternArg (newGetter exampleFlags) args) = cachePath"
  by (simp add: cacheLoc_def cachedAt_def offline_def patternArg_def newGetter_def
        exampleFlags_def cachePath_def Let_def split: list.splits)

lemma cacheLoc_cachedAt' [simp]:
  "cacheLoc (cachedAt T now content) (newGetter exampleFlags) = cachePath"
  using cacheLoc_cachedAt [of T now content "[]"] by (simp add: patternArg_def)

lemma cacheLoc_serving [simp]:
  "cacheLoc (serving data offline) (newGetter exampleFlags) = cachePath"
  by (simp add: cacheLoc_def serving_def offline_def newGetter_def exampleFlags_def
        cachePath_def)

lemma serving_miss:
  "\<not> (\<exists>T content.
        os_Stat (serving data offline) (cacheLoc (serving data offline) self) = Inr T
      \<and> time_Now (serving data offline) \<le> T + CacheDuration self
      \<and> ioutil_ReadFile (serving data offline) (cacheLoc (serving data offline) self)
          = Inr content)"
  by (simp add: serving_def offline_def)

lemma serving_downloadHosts:
  "fst (downloadHosts (serving data offline) self) = Inr data"
  by (simp add: downloadHosts_def serving_def offline_def)

lemma cachedAt_offline:
  "fst (downloadParseHosts (cachedAt T now content) self)
     = ([], Some (HTTPError ''no such host''))"
  by (simp add: downloadParseHosts_def downloadHosts_def cachedAt_def offline_def)

subsection \<open>Formatting\<close>

lemma writeHosts_append:
  "writeHosts hosts buffer = buffer @ concat (map (\<lambda>h. Name h @ [nl]) hosts)"
  by (induction hosts arbitrary: buffer) simp_all

lemma specFormat_concat:
  "specFormat names = concat (map (\<lambda>n. n @ [nl]) names)"
proof (induction names rule: joinNames.induct)
  case 1
  show ?case by (simp add: specFormat_def)
next
  case (2 n)
  show ?case by (simp add: specFormat_def)
next
  case (3 n m ns)
  then show ?case by (simp add: specFormat_def)
qed

lemma formatHosts_concat:
  "formatHosts hosts = concat (map (\<lambda>n. n @ [nl]) (map Name (Results hosts)))"
  by (simp add: formatHosts_def writeHosts_append comp_def)

lemma Split_line:
  "sep \<notin> set n \<Longrightarrow> Split (n @ sep # rest) sep = n # Split rest sep"
  by (induction n) (auto split: list.splits)

lemma Split_lines:
  "\<forall>n \<in> set names. nl \<notin> set n \<Longrightarrow>
   Split (concat (map (\<lambda>n. n @ [nl]) names)) nl = names @ [[]]"
  by (induction names) (simp_all add: Split_line)

subsection \<open>What the download and the cache do\<close>

lemma refresh_result: "fst (refresh w self loc) = fst (downloadParseHosts w self)"
  by (simp add: refresh_def split: prod.splits option.splits)

lemma refresh_events:
  "\<exists>rest. snd (refresh w self loc) = snd (downloadParseHosts w self) @ rest"
  by (simp add: refresh_def split: prod.splits option.splits)

lemma downloadHosts_events:
  "downloadHosts w self = (r, evs) \<Longrightarrow> ev \<in> set evs \<Longrightarrow>
   (\<exists>s. ev = Log s) \<or> (\<exists>u a b. ev = Do u a b)"
  by (auto simp: downloadHosts_def split: option.splits sum.splits)

lemma parse_events:
  "parse self data = (r, evs) \<Longrightarrow> ev \<in> set evs \<Longrightarrow> \<exists>s. ev = Log s"
  by (auto simp: parse_def split: prod.splits option.splits)

lemma downloadParseHosts_events:
  "ev \<in> set (snd (downloadParseHosts w self)) \<Longrightarrow>
   (\<exists>s. ev = Log s) \<or> (\<exists>u a b. ev = Do u a b)"
  unfolding downloadParseHosts_def
  by (auto split: prod.splits sum.splits option.splits
        dest: downloadHosts_events parse_events)

lemma downloadParseHosts_no_persist:
  "MkdirAll p \<notin> set (snd (downloadParseHosts w self))"
  "WriteFile p d \<notin> set (snd (downloadParseHosts w self))"
  using downloadParseHosts_events [of "MkdirAll p" w self]
        downloadParseHosts_events [of "WriteFile p d" w self]
  by auto

lemma downloadParseHosts_parse_error:
  assumes "fst (downloadHosts w self) = Inr data"
      and "fst (parse self data) = (hosts, Some e)"
  shows "fst (downloadParseHosts w self) = ([], Some e)"
  using assms
  by (auto simp: downloadParseHosts_def split: prod.splits sum.splits option.splits)

lemma refresh_saves:
  assumes "fst (downloadParseHosts w self) = (rt, None)"
      and "os_MkdirAll w (CacheLocation self) = None"
  shows "WriteFile loc rt \<in> set (snd (refresh w self loc))"
proof -
  from assms(1) obtain evs where "downloadParseHosts w self = ((rt, None), evs)"
    by (cases "downloadParseHosts w self") auto
  with assms(2) show ?thesis
    by (simp add: refresh_def split: option.splits)
qed

lemma getHosts_hit:
  assumes "os_Stat w (cacheLoc w self) = Inr T"
      and "time_Now w \<le> T + CacheDuration self"
      and "ioutil_ReadFile w (cacheLoc w self) = Inr content"
  shows "getHosts w self =
           ((content, None),
            [Stat (cacheLoc w self), Log ''found file in cache'', ReadFile (cacheLoc w self)])"
  using assms by (simp add: getHosts_def After_def Add_def)

text \<open>Without a fresh and readable cache file, \<^verbatim>\<open>getHosts\<close> goes on to line 106
  after events that only look at the cache and log.\<close>

lemma getHosts_miss:
  assumes "\<not> (\<exists>T content. os_Stat w (cacheLoc w self) = Inr T
              \<and> time_Now w \<le> T + CacheDuration self
              \<and> ioutil_ReadFile w (cacheLoc w self) = Inr content)"
  shows "\<exists>before. getHosts w self = after before (refresh w self (cacheLoc w self))
           \<and> (\<forall>ev \<in> set before.
                 (\<exists>s. ev = Log s) \<or> (\<exists>p. ev = Stat p) \<or> (\<exists>p. ev = ReadFile p))"
proof (cases "os_Stat w (cacheLoc w self)")
  case (Inl err)
  then show ?thesis
    by (intro exI [of _ "[Stat (cacheLoc w self), Log ''no file in cache, downloading %s (%v)'']"])
       (simp add: getHosts_def)
next
  case (Inr T)
  show ?thesis
  proof (cases "time_Now w \<le> T + CacheDuration self")
    case True
    with Inr assms obtain e where "ioutil_ReadFile w (cacheLoc w self) = Inl e"
      by (cases "ioutil_ReadFile w (cacheLoc w self)") auto
    with Inr True show ?thesis
      by (intro exI [of _ "[Stat (cacheLoc w self), Log ''found file in cache'',
               ReadFile (cacheLoc w self), Log ''corrupt file in cache, downloading %s (%v)'']"])
         (simp add: getHosts_def After_def Add_def)
  next
    case False
    with Inr show ?thesis
      by (intro exI [of _ "[Stat (cacheLoc w self)]"]) (simp add: getHosts_def After_def Add_def)
  qed
qed

lemma cached_hit:
  "getHosts (cachedAt 0 0 (Inr content)) (patternArg (newGetter exampleFlags) args)
     = ((content, None), [Stat cachePath, Log ''found file in cache'', ReadFile cachePath])"
  using getHosts_hit [of "cachedAt 0 0 (Inr content)"
          "patternArg (newGetter exampleFlags) args" 0 content]
  by simp

lemma threeHosts_text:
  "fst (downloadParseHosts ((serving threeHosts offline)\<lparr>os_MkdirAll := mk, ioutil_WriteFile := wr\<rparr>) self)
     = (''alpha\<newline>beta\<newline>alphabet\<newline>'', None)"
  "fst (downloadParseHosts (serving threeHosts (cachedAt T now content)) self)
     = (''alpha\<newline>beta\<newline>alphabet\<newline>'', None)"
  by (simp_all add: run_eval json_eval threeHosts_def cachedAt_def)

subsection \<open>The pattern argument\<close>

lemma Index_first:
  "sep \<notin> set pre \<Longrightarrow> Index (pre @ sep # rest) sep = int (length pre)"
  by (induction pre) auto

lemma printLines_filter:
  "printLines prefix patt ls
     = concat (map (\<lambda>line. prefix @ line @ [nl]) (filter (\<lambda>line. HasPrefix line patt) ls))"
  by (induction ls) simp_all

lemma patternArg_at:
  assumes "at_sign \<notin> set pre"
  shows "patternArg getter ((pre @ at_sign # patt) # args)
           = getter\<lparr>HostPrefix := pre @ [at_sign], HostPattern := Some patt\<rparr>"
  using Index_first [OF assms, of patt]
  by (simp add: patternArg_def Let_def nat_add_distrib)

subsection \<open>Decoding\<close>

lemma Unmarshal_mismatch:
  "Unmarshal mismatch
     = (\<lparr>Results = [\<lparr>Name = []\<rparr>]\<rparr>, Some (UnmarshalTypeError ''number'' ''string''))"
  by (simp add: json_eval mismatch_def)

lemma decodeElements_names:
  "decodeElements (map (\<lambda>n. JObject [(''Name'', JString n)]) names) (length acc) (acc, saved)
     = (acc @ map (\<lambda>n. \<lparr>Name = n\<rparr>) names, saved)"
proof (induction names arbitrary: acc)
  case Nil
  show ?case by simp
next
  case (Cons n names)
  from Cons.IH [of "acc @ [\<lparr>Name = n\<rparr>]"] show ?case
    by (simp add: matchField_def)
qed

lemma Unmarshal_names:
  assumes "checkValid data
             = Inr (JObject [(''Results'', JArray (map (\<lambda>n. JObject [(''Name'', JString n)]) names))])"
  shows "Unmarshal data = (\<lparr>Results = map (\<lambda>n. \<lparr>Name = n\<rparr>) names\<rparr>, None)"
  using assms decodeElements_names [of names "[]" None]
  by (simp add: Unmarshal_def matchField_def)

lemma decodeResponseMembers_null:
  assumes "\<forall>(key, v) \<in> set ms. matchField ''Results'' key \<longrightarrow> v = JNull"
  shows "decodeResponseMembers ms (([], 0), saved) = (([], 0), saved)"
  using assms by (induction ms) auto

section \<open>The claims\<close>

text \<open>\<^bold>\<open>C1.\<close> A cache file at \<^verbatim>\<open><cacheDirectory>/<cacheFileName>\<close> with modification time
  \<open>T\<close> that can be read, and a cache duration \<open>D\<close>: a call at a time \<open>now \<le> T + D\<close>
  (equality included) returns the content of the file with no error, and all it does is
  \<^verbatim>\<open>Stat\<close>, one log line and \<^verbatim>\<open>ReadFile\<close>, so nothing is fetched; a call at a time
  after \<open>T + D\<close> is a miss: it returns what the download and parse pipeline returns, and
  the events of the pipeline follow the \<^verbatim>\<open>Stat\<close>.\<close>

theorem getHosts_freshness_boundary:
  assumes "os_Stat w (cacheLoc w self) = Inr T"
      and "ioutil_ReadFile w (cacheLoc w self) = Inr content"
  shows "(time_Now w \<le> T + CacheDuration self \<longrightarrow>
            getHosts w self =
              ((content, None),
               [Stat (cacheLoc w self), Log ''found file in cache'', ReadFile (cacheLoc w self)]))
       \<and> (T + CacheDuration self < time_Now w \<longrightarrow>
            fst (getHosts w self) = fst (downloadParseHosts w self)
          \<and> (\<exists>rest. snd (getHosts w self)
                = Stat (cacheLoc w self) # snd (downloadParseHosts w self) @ rest))"
proof (intro conjI impI)
  assume "time_Now w \<le> T + CacheDuration self"
  with assms show "getHosts w self =
      ((content, None),
       [Stat (cacheLoc w self), Log ''found file in cache'', ReadFile (cacheLoc w self)])"
    by (simp add: getHosts_hit)
next
  assume late: "T + CacheDuration self < time_Now w"
  with assms have miss:
    "getHosts w self = after [Stat (cacheLoc w self)] (refresh w self (cacheLoc w self))"
    by (simp add: getHosts_def After_def Add_def)
  show "fst (getHosts w self) = fst (downloadParseHosts w self)"
    by (simp add: miss after_def refresh_result)
  from refresh_events [of w self "cacheLoc w self"]
  show "\<exists>rest. snd (getHosts w self)
          = Stat (cacheLoc w self) # snd (downloadParseHosts w self) @ rest"
    by (auto simp: miss after_def)
qed

text \<open>The boundary on an example: a file modified at instant 1000 with a duration of one
  hour is a hit exactly one hour later, and a miss one nanosecond after that (the
  download then fails, as this world has no network).\<close>

theorem getHosts_freshness_boundary_witness:
  "os_Stat (cachedAt 1000 3600000001000 (Inr ''alpha'')) cachePath = Inr 1000
   \<and> ioutil_ReadFile (cachedAt 1000 3600000001000 (Inr ''alpha'')) cachePath = Inr ''alpha''
   \<and> time_Now (cachedAt 1000 3600000001000 (Inr ''alpha''))
       \<le> 1000 + CacheDuration (newGetter exampleFlags)
   \<and> getHosts (cachedAt 1000 3600000001000 (Inr ''alpha'')) (newGetter exampleFlags)
       = ((''alpha'', None), [Stat cachePath, Log ''found file in cache'', ReadFile cachePath])
   \<and> 1000 + CacheDuration (newGetter exampleFlags)
       < time_Now (cachedAt 1000 3600000001001 (Inr ''alpha''))
   \<and> fst (getHosts (cachedAt 1000 3600000001001 (Inr ''alpha'')) (newGetter exampleFlags))
       = ([], Some (HTTPError ''no such host''))"
  using getHosts_freshness_boundary
          [of "cachedAt 1000 3600000001000 (Inr ''alpha'')" "newGetter exampleFlags" 1000 "''alpha''"]
        getHosts_freshness_boundary
          [of "cachedAt 1000 3600000001001 (Inr ''alpha'')" "newGetter exampleFlags" 1000 "''alpha''"]
  by (simp add: cachedAt_offline)

text \<open>\<^bold>\<open>C2.\<close> When the fetch fails, or the fetch succeeds and the parse fails, and there was
  no fresh readable cache file, \<^verbatim>\<open>getHosts\<close> returns that error with the empty text,
  and neither \<^verbatim>\<open>MkdirAll\<close> nor \<^verbatim>\<open>WriteFile\<close> is called.\<close>

theorem getHosts_pipeline_failure:
  assumes fail: "fst (downloadHosts w self) = Inl e
               \<or> (\<exists>data hosts. fst (downloadHosts w self) = Inr data
                     \<and> fst (parse self data) = (hosts, Some e))"
      and miss: "\<not> (\<exists>T content. os_Stat w (cacheLoc w self) = Inr T
              \<and> time_Now w \<le> T + CacheDuration self
              \<and> ioutil_ReadFile w (cacheLoc w self) = Inr content)"
  shows "fst (getHosts w self) = ([], Some e)
       \<and> (\<forall>p d. MkdirAll p \<notin> set (snd (getHosts w self))
                \<and> WriteFile p d \<notin> set (snd (getHosts w self)))"
proof -
  from fail have pipe: "fst (downloadParseHosts w self) = ([], Some e)"
    by (auto simp: downloadParseHosts_def split: prod.splits sum.splits option.splits)
  then obtain evs where dp: "downloadParseHosts w self = (([], Some e), evs)"
    by (cases "downloadParseHosts w self") auto
  have ref: "refresh w self (cacheLoc w self)
      = (([], Some e), snd (downloadParseHosts w self) @ [Log ''could not get hosts''])"
    by (simp add: refresh_def dp)
  from getHosts_miss [OF miss] obtain before
    where g: "getHosts w self = after before (refresh w self (cacheLoc w self))"
      and b: "\<forall>ev \<in> set before.
                (\<exists>s. ev = Log s) \<or> (\<exists>p. ev = Stat p) \<or> (\<exists>p. ev = ReadFile p)"
    by blast
  have "fst (getHosts w self) = ([], Some e)"
    by (simp add: g ref after_def)
  moreover have "MkdirAll p \<notin> set (snd (getHosts w self))
               \<and> WriteFile p d \<notin> set (snd (getHosts w self))" for p d
    using b downloadParseHosts_no_persist(1) [of p w self]
          downloadParseHosts_no_persist(2) [of p d w self]
    by (auto simp: g ref after_def)
  ultimately show ?thesis by blast
qed

text \<open>Both failures on examples: no network, and a body that breaks off.\<close>

theorem getHosts_pipeline_failure_witness:
  "fst (downloadHosts offline (newGetter exampleFlags)) = Inl (HTTPError ''no such host'')
   \<and> fst (getHosts offline (newGetter exampleFlags)) = ([], Some (HTTPError ''no such host''))
   \<and> fst (parse (newGetter exampleFlags) ''{\"Results\":'')
        = (\<lparr>Results = []\<rparr>, Some (SyntaxError ''unexpected end of JSON input''))
   \<and> fst (getHosts (serving ''{\"Results\":'' offline) (newGetter exampleFlags))
        = ([], Some (SyntaxError ''unexpected end of JSON input''))
   \<and> snd (getHosts (serving ''{\"Results\":'' offline) (newGetter exampleFlags))
        = [Stat cachePath, Log ''no file in cache, downloading %s (%v)'',
           Do ''https://foreman/hosts'' ''admin'' ''secret'', Log ''error:'',
           Log ''could not parse'', Log ''could not get hosts'']"
proof -
  let ?g = "newGetter exampleFlags"
  let ?w = "serving ''{\"Results\":'' offline"
  have d1: "fst (downloadHosts offline ?g) = Inl (HTTPError ''no such host'')"
    by (simp add: downloadHosts_def offline_def)
  have m1: "\<not> (\<exists>T content. os_Stat offline (cacheLoc offline ?g) = Inr T
              \<and> time_Now offline \<le> T + CacheDuration ?g
              \<and> ioutil_ReadFile offline (cacheLoc offline ?g) = Inr content)"
    by (simp add: offline_def)
  have p2: "fst (parse ?g ''{\"Results\":'')
        = (\<lparr>Results = []\<rparr>, Some (SyntaxError ''unexpected end of JSON input''))"
    by (simp add: run_eval json_eval)
  have f2: "fst (downloadHosts ?w ?g) = Inl (SyntaxError ''unexpected end of JSON input'')
          \<or> (\<exists>data hosts. fst (downloadHosts ?w ?g) = Inr data
                \<and> fst (parse ?g data)
                    = (hosts, Some (SyntaxError ''unexpected end of JSON input'')))"
    using serving_downloadHosts [of "''{\"Results\":''" ?g] p2 by blast
  have ev: "snd (getHosts ?w ?g)
        = [Stat cachePath, Log ''no file in cache, downloading %s (%v)'',
           Do ''https://foreman/hosts'' ''admin'' ''secret'', Log ''error:'',
           Log ''could not parse'', Log ''could not get hosts'']"
    by (simp add: getHosts_def refresh_def after_def cacheLoc_def run_eval json_eval
          newGetter_def exampleFlags_def cachePath_def)
  from getHosts_pipeline_failure [of offline ?g "HTTPError ''no such host''", OF _ m1]
       getHosts_pipeline_failure [OF f2 serving_miss] d1 p2 ev
  show ?thesis by simp
qed

text \<open>\<^bold>\<open>C3.\<close> When the pipeline succeeds with a text (and there was no fresh readable
  cache file), \<^verbatim>\<open>getHosts\<close> returns that text with no error, whatever becomes of the
  cache: if \<^verbatim>\<open>MkdirAll\<close> fails, \<^verbatim>\<open>WriteFile\<close> is not called; if \<^verbatim>\<open>MkdirAll\<close>
  succeeds and \<^verbatim>\<open>WriteFile\<close> fails, the last two events are that call and the log line
  for it.\<close>

theorem getHosts_cache_write_tolerance:
  assumes ok: "fst (downloadParseHosts w self) = (rt, None)"
      and miss: "\<not> (\<exists>T content. os_Stat w (cacheLoc w self) = Inr T
              \<and> time_Now w \<le> T + CacheDuration self
              \<and> ioutil_ReadFile w (cacheLoc w self) = Inr content)"
  shows "fst (getHosts w self) = (rt, None)
       \<and> (os_MkdirAll w (CacheLocation self) \<noteq> None \<longrightarrow>
            (\<forall>p d. WriteFile p d \<notin> set (snd (getHosts w self))))
       \<and> (os_MkdirAll w (CacheLocation self) = None
            \<and> ioutil_WriteFile w (cacheLoc w self) rt \<noteq> None \<longrightarrow>
            (\<exists>before. snd (getHosts w self)
               = before @ [WriteFile (cacheLoc w self) rt,
                           Log ''downloaded and parsed ok, could not save to cache %v'']))"
proof -
  from ok obtain evs where dp: "downloadParseHosts w self = ((rt, None), evs)"
    by (cases "downloadParseHosts w self") auto
  from getHosts_miss [OF miss] obtain before
    where g: "getHosts w self = after before (refresh w self (cacheLoc w self))"
      and b: "\<forall>ev \<in> set before.
                (\<exists>s. ev = Log s) \<or> (\<exists>p. ev = Stat p) \<or> (\<exists>p. ev = ReadFile p)"
    by blast
  have res: "fst (getHosts w self) = (rt, None)"
    by (simp add: g after_def refresh_result ok)
  have nowrite: "WriteFile p d \<notin> set (snd (getHosts w self))"
    if "os_MkdirAll w (CacheLocation self) \<noteq> None" for p d
    using that b downloadParseHosts_no_persist(2) [of p d w self]
    by (auto simp: g after_def refresh_def dp)
  have logged: "\<exists>before. snd (getHosts w self)
               = before @ [WriteFile (cacheLoc w self) rt,
                           Log ''downloaded and parsed ok, could not save to cache %v'']"
    if "os_MkdirAll w (CacheLocation self) = None"
       "ioutil_WriteFile w (cacheLoc w self) rt \<noteq> None"
  proof -
    from that have "snd (getHosts w self)
        = (before @ evs @ [Log ''downloaded and parsed - trying to save to cache'',
                          MkdirAll (CacheLocation self)])
          @ [WriteFile (cacheLoc w self) rt,
             Log ''downloaded and parsed ok, could not save to cache %v'']"
      by (auto simp: g after_def refresh_def dp)
    then show ?thesis by blast
  qed
  from res nowrite logged show ?thesis by blast
qed

text \<open>Three hosts are served; in one world the cache directory cannot be made, in the
  other the file cannot be written.\<close>

theorem getHosts_cache_write_tolerance_witness:
  "fst (getHosts ((serving threeHosts offline)
          \<lparr>os_MkdirAll := (\<lambda>p. Some (OSError ''permission denied'')),
            ioutil_WriteFile := (\<lambda>p d. None)\<rparr>)
        (newGetter exampleFlags))
     = (''alpha\<newline>beta\<newline>alphabet\<newline>'', None)
   \<and> WriteFile cachePath ''alpha\<newline>beta\<newline>alphabet\<newline>''
       \<notin> set (snd (getHosts ((serving threeHosts offline)
          \<lparr>os_MkdirAll := (\<lambda>p. Some (OSError ''permission denied'')),
            ioutil_WriteFile := (\<lambda>p d. None)\<rparr>)
        (newGetter exampleFlags)))
   \<and> fst (getHosts ((serving threeHosts offline)
          \<lparr>os_MkdirAll := (\<lambda>p. None),
            ioutil_WriteFile := (\<lambda>p d. Some (OSError ''no space left on device''))\<rparr>)
        (newGetter exampleFlags))
     = (''alpha\<newline>beta\<newline>alphabet\<newline>'', None)
   \<and> (\<exists>before. snd (getHosts ((serving threeHosts offline)
          \<lparr>os_MkdirAll := (\<lambda>p. None),
            ioutil_WriteFile := (\<lambda>p d. Some (OSError ''no space left on device''))\<rparr>)
        (newGetter exampleFlags))
       = before @ [WriteFile cachePath ''alpha\<newline>beta\<newline>alphabet\<newline>'',
                   Log ''downloaded and parsed ok, could not save to cache %v''])"
proof -
  let ?g = "newGetter exampleFlags"
  let ?w1 = "(serving threeHosts offline)
          \<lparr>os_MkdirAll := (\<lambda>p. Some (OSError ''permission denied'')),
            ioutil_WriteFile := (\<lambda>p d. None)\<rparr>"
  let ?w2 = "(serving threeHosts offline)
          \<lparr>os_MkdirAll := (\<lambda>p. None),
            ioutil_WriteFile := (\<lambda>p d. Some (OSError ''no space left on device''))\<rparr>"
  let ?rt = "''alpha\<newline>beta\<newline>alphabet\<newline>''"
  have loc1: "cacheLoc ?w1 ?g = cachePath" and loc2: "cacheLoc ?w2 ?g = cachePath"
    by (simp_all add: cacheLoc_def serving_def offline_def newGetter_def exampleFlags_def
          cachePath_def)
  have miss1: "\<not> (\<exists>T content. os_Stat ?w1 (cacheLoc ?w1 ?g) = Inr T
              \<and> time_Now ?w1 \<le> T + CacheDuration ?g
              \<and> ioutil_ReadFile ?w1 (cacheLoc ?w1 ?g) = Inr content)"
    by (simp add: serving_def offline_def)
  have miss2: "\<not> (\<exists>T content. os_Stat ?w2 (cacheLoc ?w2 ?g) = Inr T
              \<and> time_Now ?w2 \<le> T + CacheDuration ?g
              \<and> ioutil_ReadFile ?w2 (cacheLoc ?w2 ?g) = Inr content)"
    by (simp add: serving_def offline_def)
  have mk1: "os_MkdirAll ?w1 (CacheLocation ?g) \<noteq> None"
    and mk2: "os_MkdirAll ?w2 (CacheLocation ?g) = None"
    and wr2: "ioutil_WriteFile ?w2 cachePath ?rt \<noteq> None"
    by (simp_all add: serving_def offline_def)
  from getHosts_cache_write_tolerance [OF threeHosts_text(1) miss1]
       getHosts_cache_write_tolerance [OF threeHosts_text(1) miss2]
       mk1 mk2 wr2
  show ?thesis by (simp add: loc1 loc2)
qed

text \<open>\<^bold>\<open>C4.\<close> A cache file that exists and is fresh (\<open>now \<le> modTime + duration\<close>) but
  cannot be read is a miss: \<^verbatim>\<open>getHosts\<close> returns what the download and parse pipeline
  returns, not the read error, and the events of the pipeline follow the failed read.\<close>

theorem getHosts_unreadable_cache_is_miss:
  assumes "os_Stat w (cacheLoc w self) = Inr T"
      and "time_Now w \<le> T + CacheDuration self"
      and "ioutil_ReadFile w (cacheLoc w self) = Inl e"
  shows "fst (getHosts w self) = fst (downloadParseHosts w self)
       \<and> (\<exists>rest. snd (getHosts w self)
            = [Stat (cacheLoc w self), Log ''found file in cache'', ReadFile (cacheLoc w self),
               Log ''corrupt file in cache, downloading %s (%v)'']
              @ snd (downloadParseHosts w self) @ rest)"
proof -
  from assms have miss: "getHosts w self =
      after [Stat (cacheLoc w self), Log ''found file in cache'', ReadFile (cacheLoc w self),
             Log ''corrupt file in cache, downloading %s (%v)'']
        (refresh w self (cacheLoc w self))"
    by (simp add: getHosts_def After_def Add_def)
  from refresh_events [of w self "cacheLoc w self"] show ?thesis
    by (auto simp: miss after_def refresh_result)
qed

text \<open>A fresh cache file that may not be read, while the server has three hosts.\<close>

theorem getHosts_unreadable_cache_is_miss_witness:
  "os_Stat (serving threeHosts (cachedAt 1000 2000 (Inl (OSError ''permission denied''))))
      cachePath = Inr 1000
   \<and> time_Now (serving threeHosts (cachedAt 1000 2000 (Inl (OSError ''permission denied''))))
        \<le> 1000 + CacheDuration (newGetter exampleFlags)
   \<and> ioutil_ReadFile
        (serving threeHosts (cachedAt 1000 2000 (Inl (OSError ''permission denied''))))
        cachePath
        = Inl (OSError ''permission denied'')
   \<and> getHosts (serving threeHosts (cachedAt 1000 2000 (Inl (OSError ''permission denied''))))
              (newGetter exampleFlags)
        = ((''alpha\<newline>beta\<newline>alphabet\<newline>'', None),
           [Stat cachePath, Log ''found file in cache'', ReadFile cachePath,
            Log ''corrupt file in cache, downloading %s (%v)'',
            Do ''https://foreman/hosts'' ''admin'' ''secret'',
            Log ''downloaded and parsed - trying to save to cache'',
            MkdirAll ''/home/u/.gethosts'',
            WriteFile cachePath ''alpha\<newline>beta\<newline>alphabet\<newline>'',
            Log ''saved hosts in cache''])"
proof -
  let ?w = "serving threeHosts (cachedAt 1000 2000 (Inl (OSError ''permission denied'')))"
  let ?g = "newGetter exampleFlags"
  have loc: "cacheLoc ?w ?g = cachePath"
    by (simp add: cacheLoc_def serving_def cachedAt_def offline_def newGetter_def
          exampleFlags_def cachePath_def)
  have stat: "os_Stat ?w (cacheLoc ?w ?g) = Inr 1000"
    by (simp add: loc) (simp add: serving_def cachedAt_def)
  have fresh: "time_Now ?w \<le> 1000 + CacheDuration ?g"
    by (simp add: serving_def cachedAt_def)
  have rd: "ioutil_ReadFile ?w (cacheLoc ?w ?g) = Inl (OSError ''permission denied'')"
    by (simp add: loc) (simp add: serving_def cachedAt_def)
  have run: "getHosts ?w ?g
        = ((''alpha\<newline>beta\<newline>alphabet\<newline>'', None),
           [Stat cachePath, Log ''found file in cache'', ReadFile cachePath,
            Log ''corrupt file in cache, downloading %s (%v)'',
            Do ''https://foreman/hosts'' ''admin'' ''secret'',
            Log ''downloaded and parsed - trying to save to cache'',
            MkdirAll ''/home/u/.gethosts'',
            WriteFile cachePath ''alpha\<newline>beta\<newline>alphabet\<newline>'',
            Log ''saved hosts in cache''])"
    using stat fresh rd
    by (simp add: getHosts_def After_def Add_def loc refresh_def after_def)
       (simp add: run_eval json_eval threeHosts_def cachedAt_def newGetter_def exampleFlags_def)
  from getHosts_unreadable_cache_is_miss [OF stat fresh rd] stat fresh rd run
  show ?thesis by (simp add: loc)
qed

text \<open>\<^bold>\<open>C5.\<close> When the payload is fetched and decoded, the text that
  \<^verbatim>\<open>downloadParseHosts\<close> returns is the names of the records of \<^verbatim>\<open>Results\<close> in
  their order, joined one per line, with a newline after the last; for no records it is
  the empty text. In particular, for a payload that reads as an object whose member
  \<^verbatim>\<open>Results\<close> is an array of objects with a string \<^verbatim>\<open>Name\<close> each, these are the
  names in the order of the array.\<close>

theorem downloadParseHosts_format:
  assumes "fst (downloadHosts w self) = Inr data"
  shows "(\<forall>hosts. fst (parse self data) = (hosts, None) \<longrightarrow>
            fst (downloadParseHosts w self) = (specFormat (map Name (Results hosts)), None)
          \<and> (Results hosts = [] \<longrightarrow> fst (downloadParseHosts w self) = ([], None)))
       \<and> (\<forall>names.
            checkValid data
              = Inr (JObject [(''Results'',
                               JArray (map (\<lambda>n. JObject [(''Name'', JString n)]) names))]) \<longrightarrow>
            fst (downloadParseHosts w self) = (specFormat names, None))"
proof -
  have decoded: "fst (downloadParseHosts w self) = (specFormat (map Name (Results hosts)), None)"
    if "fst (parse self data) = (hosts, None)" for hosts
  proof -
    from assms that have "fst (downloadParseHosts w self) = (formatHosts hosts, None)"
      by (auto simp: downloadParseHosts_def split: prod.splits sum.splits option.splits)
    then show ?thesis
      by (simp add: formatHosts_concat specFormat_concat)
  qed
  have listed: "fst (downloadParseHosts w self) = (specFormat names, None)"
    if "checkValid data
          = Inr (JObject [(''Results'',
                           JArray (map (\<lambda>n. JObject [(''Name'', JString n)]) names))])"
    for names
  proof -
    from Unmarshal_names [OF that]
    have "fst (parse self data) = (\<lparr>Results = map (\<lambda>n. \<lparr>Name = n\<rparr>) names\<rparr>, None)"
      by (simp add: parse_def)
    from decoded [OF this] show ?thesis
      by (simp add: comp_def)
  qed
  from decoded listed show ?thesis
    by (auto simp: specFormat_def)
qed

theorem downloadParseHosts_format_witness:
  "fst (downloadHosts (serving threeHosts offline) (newGetter exampleFlags)) = Inr threeHosts
   \<and> checkValid threeHosts
       = Inr (JObject [(''Results'',
                        JArray (map (\<lambda>n. JObject [(''Name'', JString n)])
                                  [''alpha'', ''beta'', ''alphabet'']))])
   \<and> fst (parse (newGetter exampleFlags) threeHosts)
       = (\<lparr>Results = [\<lparr>Name = ''alpha''\<rparr>, \<lparr>Name = ''beta''\<rparr>, \<lparr>Name = ''alphabet''\<rparr>]\<rparr>, None)
   \<and> fst (downloadParseHosts (serving threeHosts offline) (newGetter exampleFlags))
       = (''alpha\<newline>beta\<newline>alphabet\<newline>'', None)
   \<and> fst (parse (newGetter exampleFlags) ''{\"Results\":[]}'')
       = (\<lparr>Results = []\<rparr>, None)
   \<and> fst (downloadParseHosts (serving ''{\"Results\":[]}'' offline) (newGetter exampleFlags))
       = ([], None)"
proof -
  let ?w = "serving threeHosts offline" and ?g = "newGetter exampleFlags"
  let ?e = "serving ''{\"Results\":[]}'' offline"
  have v: "checkValid threeHosts
       = Inr (JObject [(''Results'',
                        JArray (map (\<lambda>n. JObject [(''Name'', JString n)])
                                  [''alpha'', ''beta'', ''alphabet'']))])"
    by (simp add: json_eval threeHosts_def)
  have p: "fst (parse ?g threeHosts)
       = (\<lparr>Results = [\<lparr>Name = ''alpha''\<rparr>, \<lparr>Name = ''beta''\<rparr>, \<lparr>Name = ''alphabet''\<rparr>]\<rparr>, None)"
    by (simp add: run_eval json_eval threeHosts_def)
  have p0: "fst (parse ?g ''{\"Results\":[]}'') = (\<lparr>Results = []\<rparr>, None)"
    by (simp add: run_eval json_eval)
  note t = downloadParseHosts_format [OF serving_downloadHosts [of threeHosts ?g]]
  note t0 = downloadParseHosts_format [OF serving_downloadHosts [of "''{\"Results\":[]}''" ?g]]
  have r: "fst (downloadParseHosts ?w ?g)
             = (specFormat [''alpha'', ''beta'', ''alphabet''], None)"
    using t v by blast
  have r0: "fst (downloadParseHosts ?e ?g) = ([], None)"
    using t0 p0 by auto
  from r r0 v p p0 serving_downloadHosts [of threeHosts ?g] show ?thesis
    by (simp add: specFormat_def)
qed

text \<open>\<^bold>\<open>C6\<close> (as amended). For names none of which contains a newline, splitting the
  formatted text at the newlines gives the names in their order, followed by one empty
  piece.\<close>

theorem Split_formatHosts:
  assumes "\<forall>r \<in> set (Results hosts). nl \<notin> set (Name r)"
  shows "Split (formatHosts hosts) nl = map Name (Results hosts) @ [[]]"
  using assms Split_lines [of "map Name (Results hosts)"]
  by (simp add: formatHosts_concat)

theorem Split_formatHosts_witness:
  "Split (formatHosts \<lparr>Results = [\<lparr>Name = ''alpha''\<rparr>, \<lparr>Name = ''beta''\<rparr>]\<rparr>) nl
     = [''alpha'', ''beta'', []]"
  using Split_formatHosts [of "\<lparr>Results = [\<lparr>Name = ''alpha''\<rparr>, \<lparr>Name = ''beta''\<rparr>]\<rparr>"]
  by simp

text \<open>C6 as it was stated, for every list of names, fails for a name that contains a
  newline. The payload \<^verbatim>\<open>{"Results":[{"Name":"a\nb"}]}\<close> decodes to one such name; its
  text splits into three pieces, not into the name and an empty piece.\<close>

theorem Split_formatHosts_counterexample:
  "fst (parse (newGetter exampleFlags)
          (''{\"Results\":[{\"Name\":\"a'' @ [CHR 0x5C] @ ''nb\"}]}''))
     = (\<lparr>Results = [\<lparr>Name = ''a\<newline>b''\<rparr>]\<rparr>, None)
   \<and> formatHosts \<lparr>Results = [\<lparr>Name = ''a\<newline>b''\<rparr>]\<rparr> = ''a\<newline>b\<newline>''
   \<and> Split (formatHosts \<lparr>Results = [\<lparr>Name = ''a\<newline>b''\<rparr>]\<rparr>) nl = [''a'', ''b'', []]
   \<and> Split (formatHosts \<lparr>Results = [\<lparr>Name = ''a\<newline>b''\<rparr>]\<rparr>) nl
        \<noteq> map Name (Results \<lparr>Results = [\<lparr>Name = ''a\<newline>b''\<rparr>]\<rparr>) @ [[]]"
  by (simp add: run_eval json_eval)

text \<open>\<^bold>\<open>C7\<close> (as amended). For a pattern argument that contains \<^verbatim>\<open>@\<close>, everything up
  to and including the first \<^verbatim>\<open>@\<close> is the display prefix and everything after it is
  the match pattern; the output is, in their order, the lines of the host text that
  start with the pattern, each after the prefix and ended by a newline.\<close>

theorem main_pattern_prefix:
  assumes "at_sign \<notin> set pre"
      and "user_Current w = None"
      and "fst (getHosts w (patternArg (newGetter f) ((pre @ at_sign # patt) # args)))
             = (hosts, None)"
  shows "HostPrefix (patternArg (newGetter f) ((pre @ at_sign # patt) # args)) = pre @ [at_sign]
       \<and> HostPattern (patternArg (newGetter f) ((pre @ at_sign # patt) # args)) = Some patt
       \<and> stdout (main w f ((pre @ at_sign # patt) # args))
           = concat (map (\<lambda>line. (pre @ [at_sign]) @ line @ [nl])
                       (filter (\<lambda>line. HasPrefix line patt) (Split hosts nl)))"
proof -
  let ?g = "patternArg (newGetter f) ((pre @ at_sign # patt) # args)"
  have g: "?g = (newGetter f)\<lparr>HostPrefix := pre @ [at_sign], HostPattern := Some patt\<rparr>"
    by (rule patternArg_at [OF assms(1)])
  from assms(3) obtain ev where run: "getHosts w ?g = ((hosts, None), ev)"
    by (cases "getHosts w ?g") auto
  have "stdout (main w f ((pre @ at_sign # patt) # args)) = printHosts ?g hosts"
    using assms(2) run by (simp add: main_def Let_def)
  also have "\<dots> = printLines (pre @ [at_sign]) patt (Split hosts nl)"
    by (simp add: g printHosts_def)
  finally show ?thesis
    by (simp add: g printLines_filter)
qed

text \<open>The cached names \<^verbatim>\<open>alpha\<close>, \<^verbatim>\<open>beta\<close>, \<^verbatim>\<open>alphabet\<close> and the argument
  \<^verbatim>\<open>P@alpha\<close>: the lines are \<^verbatim>\<open>P@alpha\<close> and \<^verbatim>\<open>P@alphabet\<close>.\<close>

theorem main_pattern_prefix_witness:
  "stdout (main (cachedAt 0 0 (Inr ''alpha\<newline>beta\<newline>alphabet\<newline>'')) exampleFlags [''P@alpha''])
     = ''P@alpha\<newline>P@alphabet\<newline>''
   \<and> HostPrefix (patternArg (newGetter exampleFlags) [''P@alpha'']) = ''P@''
   \<and> HostPattern (patternArg (newGetter exampleFlags) [''P@alpha'']) = Some ''alpha''"
proof -
  let ?w = "cachedAt 0 0 (Inr ''alpha\<newline>beta\<newline>alphabet\<newline>'')"
  have u: "user_Current ?w = None"
    by simp
  have h: "fst (getHosts ?w (patternArg (newGetter exampleFlags) [''P'' @ at_sign # ''alpha'']))
             = (''alpha\<newline>beta\<newline>alphabet\<newline>'', None)"
    by (simp add: cached_hit)
  from main_pattern_prefix [of "''P''" ?w exampleFlags "''alpha''" "[]", OF _ u h]
  show ?thesis by (simp add: HasPrefix_def)
qed

text \<open>C7 as it was stated has the prefix end before the \<^verbatim>\<open>@\<close> and the lines
  \<^verbatim>\<open>Palpha\<close> and \<^verbatim>\<open>Palphabet\<close>; the program keeps the \<^verbatim>\<open>@\<close> in the prefix.\<close>

theorem main_pattern_prefix_counterexample:
  "stdout (main (cachedAt 0 0 (Inr ''alpha\<newline>beta\<newline>alphabet\<newline>'')) exampleFlags [''P@alpha''])
     = ''P@alpha\<newline>P@alphabet\<newline>''
   \<and> stdout (main (cachedAt 0 0 (Inr ''alpha\<newline>beta\<newline>alphabet\<newline>'')) exampleFlags [''P@alpha''])
     \<noteq> ''Palpha\<newline>Palphabet\<newline>''
   \<and> HostPrefix (patternArg (newGetter exampleFlags) [''P@alpha'']) \<noteq> ''P''"
proof -
  have "main (cachedAt 0 0 (Inr ''alpha\<newline>beta\<newline>alphabet\<newline>'')) exampleFlags [''P@alpha'']
      = \<lparr>stdout = ''P@alpha\<newline>P@alphabet\<newline>'', status = 0,
         events = [Log ''requesting pattern %s, for prefix %s'', Stat cachePath,
                   Log ''found file in cache'', ReadFile cachePath]\<rparr>"
    by (simp add: main_def cached_hit Let_def)
       (simp add: printHosts_def patternArg_def HasPrefix_def Let_def)
  then show ?thesis
    by (simp add: patternArg_def Let_def)
qed

text \<open>\<^bold>\<open>C8.\<close> Parsing \<^verbatim>\<open>{"Results":[{"Name":1}]}\<close> returns an error, the type
  error for a number where a string is expected, and a download of that text ends in
  this error with the empty text. No payload is used in part: whenever \<^verbatim>\<open>parse\<close>
  returns an error, \<^verbatim>\<open>downloadParseHosts\<close> returns the empty text and that error.\<close>

theorem parse_type_mismatch:
  "snd (fst (parse self ''{\"Results\":[{\"Name\":1}]}''))
     = Some (UnmarshalTypeError ''number'' ''string'')
   \<and> (fst (downloadHosts w self) = Inr ''{\"Results\":[{\"Name\":1}]}'' \<longrightarrow>
        fst (downloadParseHosts w self) = ([], Some (UnmarshalTypeError ''number'' ''string'')))
   \<and> (\<forall>data hosts e.
        fst (downloadHosts w self) = Inr data \<and> fst (parse self data) = (hosts, Some e) \<longrightarrow>
        fst (downloadParseHosts w self) = ([], Some e))"
proof -
  have p: "fst (parse self mismatch)
      = (\<lparr>Results = [\<lparr>Name = []\<rparr>]\<rparr>, Some (UnmarshalTypeError ''number'' ''string''))"
    by (simp add: parse_def Unmarshal_mismatch)
  then show ?thesis
    using downloadParseHosts_parse_error [of w self] by (auto simp: mismatch_def)
qed

theorem parse_type_mismatch_witness:
  "fst (downloadHosts (serving ''{\"Results\":[{\"Name\":1}]}'' offline) (newGetter exampleFlags))
     = Inr ''{\"Results\":[{\"Name\":1}]}''
   \<and> fst (parse (newGetter exampleFlags)
          ''{\"Results\":[{\"Name\":1}]}'')
       = (\<lparr>Results = [\<lparr>Name = []\<rparr>]\<rparr>, Some (UnmarshalTypeError ''number'' ''string''))
   \<and> fst (downloadParseHosts (serving ''{\"Results\":[{\"Name\":1}]}'' offline)
          (newGetter exampleFlags))
       = ([], Some (UnmarshalTypeError ''number'' ''string''))"
proof -
  let ?w = "serving ''{\"Results\":[{\"Name\":1}]}'' offline" and ?g = "newGetter exampleFlags"
  have p: "fst (parse ?g mismatch)
      = (\<lparr>Results = [\<lparr>Name = []\<rparr>]\<rparr>, Some (UnmarshalTypeError ''number'' ''string''))"
    by (simp add: parse_def Unmarshal_mismatch)
  from parse_type_mismatch [of ?g ?w] p
       serving_downloadHosts [of "''{\"Results\":[{\"Name\":1}]}''" ?g]
  show ?thesis by (simp add: mismatch_def)
qed

text \<open>\<^bold>\<open>C9\<close> (as amended). With no pattern argument, standard output receives the text
  that \<^verbatim>\<open>getHosts\<close> returned, followed by one newline.\<close>

theorem main_no_pattern_output:
  assumes "user_Current w = None"
      and "fst (getHosts w (newGetter f)) = (hosts, None)"
  shows "stdout (main w f []) = hosts @ [nl]"
proof -
  from assms(2) obtain ev where "getHosts w (newGetter f) = ((hosts, None), ev)"
    by (cases "getHosts w (newGetter f)") auto
  with assms(1) show ?thesis
    by (simp add: main_def patternArg_def printHosts_def newGetter_def)
qed

theorem main_no_pattern_output_witness:
  "user_Current (cachedAt 0 0 (Inr ''alpha\<newline>beta\<newline>'')) = None
   \<and> fst (getHosts (cachedAt 0 0 (Inr ''alpha\<newline>beta\<newline>'')) (newGetter exampleFlags))
       = (''alpha\<newline>beta\<newline>'', None)
   \<and> stdout (main (cachedAt 0 0 (Inr ''alpha\<newline>beta\<newline>'')) exampleFlags [])
       = ''alpha\<newline>beta\<newline>\<newline>''"
proof -
  let ?w = "cachedAt 0 0 (Inr ''alpha\<newline>beta\<newline>'')"
  have u: "user_Current ?w = None"
    by simp
  have h: "fst (getHosts ?w (newGetter exampleFlags)) = (''alpha\<newline>beta\<newline>'', None)"
    using cached_hit [of "''alpha\<newline>beta\<newline>''" "[]"] by (simp add: patternArg_def)
  from main_no_pattern_output [OF u h] u h show ?thesis by simp
qed

text \<open>C9 as it was stated has the output equal to the text, byte for byte; the
  output of \<^verbatim>\<open>Fprintln\<close> is one newline longer.\<close>

theorem main_no_pattern_output_counterexample:
  "fst (getHosts (cachedAt 0 0 (Inr ''alpha\<newline>beta\<newline>'')) (newGetter exampleFlags))
       = (''alpha\<newline>beta\<newline>'', None)
   \<and> stdout (main (cachedAt 0 0 (Inr ''alpha\<newline>beta\<newline>'')) exampleFlags [])
       = ''alpha\<newline>beta\<newline>\<newline>''
   \<and> stdout (main (cachedAt 0 0 (Inr ''alpha\<newline>beta\<newline>'')) exampleFlags [])
       \<noteq> ''alpha\<newline>beta\<newline>''"
proof -
  have h: "getHosts (cachedAt 0 0 (Inr ''alpha\<newline>beta\<newline>'')) (newGetter exampleFlags)
      = ((''alpha\<newline>beta\<newline>'', None),
         [Stat cachePath, Log ''found file in cache'', ReadFile cachePath])"
    using cached_hit [of "''alpha\<newline>beta\<newline>''" "[]"] by (simp add: patternArg_def)
  then show ?thesis
    by (simp add: main_def patternArg_def printHosts_def)
qed

text \<open>\<^bold>\<open>C10\<close> (as amended). A payload that is a JSON object in which every member whose
  name is \<^verbatim>\<open>Results\<close>, exactly or up to the case of its letters, has the value
  \<^verbatim>\<open>null\<close> (so also an object with no such member) parses with no error to a
  \<^verbatim>\<open>Response\<close> with no results, the same outcome as for a text that reads
  \<^verbatim>\<open>{"Results":[]}\<close>; the pipeline returns the empty text, and when there is no fresh
  readable cache file and the cache directory can be made, \<^verbatim>\<open>getHosts\<close> returns the
  empty text and calls \<^verbatim>\<open>WriteFile\<close> with it.\<close>

theorem parse_without_Results:
  assumes valid: "checkValid data = Inr (JObject ms)"
      and nores: "\<forall>(key, v) \<in> set ms. matchField ''Results'' key \<longrightarrow> v = JNull"
      and dl: "fst (downloadHosts w self) = Inr data"
  shows "fst (parse self data) = (\<lparr>Results = []\<rparr>, None)
       \<and> fst (downloadParseHosts w self) = ([], None)
       \<and> (checkValid other = Inr (JObject [(''Results'', JArray [])]) \<longrightarrow>
            parse self data = parse self other)
       \<and> (\<not> (\<exists>T content. os_Stat w (cacheLoc w self) = Inr T
                \<and> time_Now w \<le> T + CacheDuration self
                \<and> ioutil_ReadFile w (cacheLoc w self) = Inr content)
            \<and> os_MkdirAll w (CacheLocation self) = None \<longrightarrow>
            fst (getHosts w self) = ([], None)
            \<and> WriteFile (cacheLoc w self) [] \<in> set (snd (getHosts w self)))"
proof -
  from valid decodeResponseMembers_null [OF nores, of None]
  have u: "Unmarshal data = (\<lparr>Results = []\<rparr>, None)"
    by (simp add: Unmarshal_def)
  then have p: "parse self data = ((\<lparr>Results = []\<rparr>, None), [])"
    by (simp add: parse_def)
  with dl have pipe: "fst (downloadParseHosts w self) = ([], None)"
    by (auto simp: downloadParseHosts_def formatHosts_def split: prod.splits sum.splits)
  have same: "parse self data = parse self other"
    if "checkValid other = Inr (JObject [(''Results'', JArray [])])"
    using that by (simp add: p) (simp add: parse_def Unmarshal_def matchField_def)
  have saved: "fst (getHosts w self) = ([], None)
            \<and> WriteFile (cacheLoc w self) [] \<in> set (snd (getHosts w self))"
    if miss: "\<not> (\<exists>T content. os_Stat w (cacheLoc w self) = Inr T
                \<and> time_Now w \<le> T + CacheDuration self
                \<and> ioutil_ReadFile w (cacheLoc w self) = Inr content)"
      and mk: "os_MkdirAll w (CacheLocation self) = None"
  proof -
    from getHosts_miss [OF miss] obtain before
      where g: "getHosts w self = after before (refresh w self (cacheLoc w self))"
      by blast
    from refresh_saves [OF pipe mk, of "cacheLoc w self"] show ?thesis
      by (simp add: g after_def refresh_result pipe)
  qed
  from p pipe same saved show ?thesis by simp
qed

text \<open>The payloads \<^verbatim>\<open>{"Other":1}\<close>, \<^verbatim>\<open>{}\<close> and \<^verbatim>\<open>{"Results":null}\<close>.\<close>

theorem parse_without_Results_witness:
  "checkValid ''{\"Other\":1}''
     = Inr (JObject [(''Other'', JNumber ''1'')])
   \<and> fst (parse (newGetter exampleFlags) ''{\"Other\":1}'')
       = (\<lparr>Results = []\<rparr>, None)
   \<and> parse (newGetter exampleFlags) ''{\"Other\":1}''
       = parse (newGetter exampleFlags) ''{\"Results\":[]}''
   \<and> fst (getHosts (serving ''{\"Other\":1}'' offline) (newGetter exampleFlags)) = ([], None)
   \<and> WriteFile cachePath []
       \<in> set (snd (getHosts (serving ''{\"Other\":1}'' offline) (newGetter exampleFlags)))
   \<and> fst (getHosts (serving ''{}'' offline) (newGetter exampleFlags)) = ([], None)
   \<and> fst (getHosts (serving ''{\"Results\":null}'' offline) (newGetter exampleFlags)) = ([], None)"
proof -
  let ?g = "newGetter exampleFlags"
  have v: "checkValid ''{\"Other\":1}''
             = Inr (JObject [(''Other'', JNumber ''1'')])"
          "checkValid ''{}'' = Inr (JObject [])"
          "checkValid ''{\"Results\":null}''
             = Inr (JObject [(''Results'', JNull)])"
          "checkValid ''{\"Results\":[]}''
             = Inr (JObject [(''Results'', JArray [])])"
    by (simp_all add: json_eval)
  have n: "\<forall>(key, v) \<in> set [(''Other'', JNumber ''1'')]. matchField ''Results'' key \<longrightarrow> v = JNull"
          "\<forall>(key, v) \<in> set ([] :: (string \<times> json) list). matchField ''Results'' key \<longrightarrow> v = JNull"
          "\<forall>(key, v) \<in> set [(''Results'', JNull)]. matchField ''Results'' key \<longrightarrow> v = JNull"
    by (simp_all add: matchField_def)
  have mk: "os_MkdirAll (serving d offline) (CacheLocation ?g) = None" for d
    by (simp add: serving_def offline_def)
  let ?miss = "\<lambda>d. \<not> (\<exists>T content.
                  os_Stat (serving d offline) (cacheLoc (serving d offline) ?g) = Inr T
                \<and> time_Now (serving d offline) \<le> T + CacheDuration ?g
                \<and> ioutil_ReadFile (serving d offline) (cacheLoc (serving d offline) ?g) = Inr content)
            \<and> os_MkdirAll (serving d offline) (CacheLocation ?g) = None"
  have pre: "?miss d" for d
    using serving_miss [of d ?g] mk [of d] by blast
  note t1 = parse_without_Results
    [where other = "''{\"Results\":[]}''", OF v(1) n(1) serving_downloadHosts]
  note t2 = parse_without_Results
    [where other = "''{\"Results\":[]}''", OF v(2) n(2) serving_downloadHosts]
  note t3 = parse_without_Results
    [where other = "''{\"Results\":[]}''", OF v(3) n(3) serving_downloadHosts]
  have r1: "fst (parse ?g ''{\"Other\":1}'')
              = (\<lparr>Results = []\<rparr>, None)"
    using t1 by blast
  have r2: "parse ?g ''{\"Other\":1}''
              = parse ?g ''{\"Results\":[]}''"
    using t1 v(4) by blast
  have r3: "fst (getHosts (serving ''{\"Other\":1}'' offline) ?g) = ([], None)
          \<and> WriteFile (cacheLoc (serving ''{\"Other\":1}'' offline) ?g) []
              \<in> set (snd (getHosts (serving ''{\"Other\":1}'' offline) ?g))"
    using t1 pre [of "''{\"Other\":1}''"] by blast
  have r4: "fst (getHosts (serving ''{}'' offline) ?g) = ([], None)"
    using t2 pre [of "''{}''"] by blast
  have r5: "fst (getHosts (serving ''{\"Results\":null}'' offline) ?g) = ([], None)"
    using t3 pre [of "''{\"Results\":null}''"] by blast
  from v(1) r1 r2 r3 r4 r5 show ?thesis
    by (simp only: cacheLoc_serving simp_thms)
qed

text \<open>C10 as it was stated counts every object without a member named \<^verbatim>\<open>Results\<close>.
  The payload \<^verbatim>\<open>{"results":[{"Name":"a"}]}\<close> has none, and the library stores its
  member \<^verbatim>\<open>results\<close> into the field \<^verbatim>\<open>Results\<close>: the text is not empty.\<close>

theorem parse_without_Results_counterexample:
  "checkValid ''{\"results\":[{\"Name\":\"a\"}]}''
     = Inr (JObject [(''results'', JArray [JObject [(''Name'', JString ''a'')]])])
   \<and> ''Results'' \<notin> set (map fst [(''results'', JArray [JObject [(''Name'', JString ''a'')]])])
   \<and> fst (downloadParseHosts (serving ''{\"results\":[{\"Name\":\"a\"}]}'' offline)
            (newGetter exampleFlags))
       = (''a\<newline>'', None)
   \<and> fst (downloadParseHosts (serving ''{\"results\":[{\"Name\":\"a\"}]}'' offline)
            (newGetter exampleFlags))
       \<noteq> ([], None)"
  by (simp add: run_eval json_eval)

end
